theory Spec2Isabelle
  imports Main
begin

section \<open>Python values and exceptions\<close>

text \<open>
  \<open>EC2Node.py\<close> raises \<open>RuntimeError\<close> and \<open>AssertionError\<close> itself; subscripting a
  dict or a list can raise \<open>KeyError\<close>, \<open>IndexError\<close> or \<open>TypeError\<close>, a method
  call on \<open>None\<close> raises \<open>AttributeError\<close>; the SDK raises
  \<open>ClientError\<close> for an error response of the service and \<open>WaiterError\<close> for a wait
  that did not reach its target. An exception is a value; a method returns
  \<open>error + 'a\<close> together with the state it leaves behind.
\<close>

datatype error =
    RuntimeError string
  | AssertionError string
  | KeyError string
  | IndexError
  | TypeError
  | AttributeError
  | ClientError string
  | WaiterError

text \<open>
  A dict with string keys is an association list read with \<open>map_of\<close>. The values of an
  instance description are strings (\<open>InstanceId\<close>, \<open>PrivateIpAddress\<close>,
  \<open>PublicIpAddress\<close>) or lists of string-valued dicts (\<open>SecurityGroups\<close>).
\<close>

type_synonym 'v dict = "(string \<times> 'v) list"

datatype pyval = Str string | Dicts "string dict list"

definition getitem :: "'v dict \<Rightarrow> string \<Rightarrow> error + 'v" where
  "getitem d k = (case map_of d k of None \<Rightarrow> Inl (KeyError k) | Some v \<Rightarrow> Inr v)"

text \<open>Truth value of \<open>self._instance_info\<close>: \<open>None\<close> and the empty dict are false.\<close>

definition truthy :: "'v dict option \<Rightarrow> bool" where
  "truthy c = (case c of None \<Rightarrow> False | Some d \<Rightarrow> d \<noteq> [])"

definition startswith :: "string \<Rightarrow> string \<Rightarrow> bool" where
  "startswith s p = (take (length p) s = p)"

text \<open>
  Sequencing of two steps over a state: the second step runs only when the first
  returned normally; an exception keeps the state reached so far.
\<close>

definition and_then ::
  "(error + 'a) \<times> 's \<Rightarrow> ('a \<Rightarrow> 's \<Rightarrow> (error + 'b) \<times> 's) \<Rightarrow> (error + 'b) \<times> 's" where
  "and_then r f = (case r of (Inl e, s) \<Rightarrow> (Inl e, s) | (Inr x, s) \<Rightarrow> f x s)"

section \<open>The requests of the provisioning API\<close>

record ebs =
  SnapshotId :: string
  VolumeSize :: int
  VolumeType :: string
  Iops :: "int option"

record placement =
  AvailabilityZone :: string
  GroupName :: "string option"

text \<open>
  The keyword arguments of \<open>run_instances\<close> as \<open>launch\<close> passes them. A key that the
  code adds to a dict only under a condition (\<open>Iops\<close>, \<open>GroupName\<close>) is an option.
\<close>

record run_request =
  DeviceName :: string
  Ebs :: ebs
  ImageId :: string
  InstanceType :: string
  KeyName :: string
  MaxCount :: nat
  MinCount :: nat
  MonitoringEnabled :: bool
  Placement :: placement
  SecurityGroupIds :: "string list"
  SubnetId :: string
  DryRun :: bool
  EbsOptimized :: bool
  IamInstanceProfileName :: string
  ElasticInferenceAccelerators :: "string list"
  Tags :: "string dict list"

text \<open>
  Every remote call of the module, with its arguments. \<open>DescribeInstances n states\<close>
  is the query with the two filters \<open>tag:Name = n\<close> and \<open>instance-state-name \<in> states\<close>.
\<close>

datatype api_call =
    DescribeInstances string "string list"
  | RunInstances run_request
  | TerminateInstances "pyval list" bool
  | ModifyInstanceAttribute pyval "string list"
  | DeleteTags pyval "string list"
  | WaitInstanceRunning string
  | WaitInstanceStatusOk "pyval list"
  | WaitInstanceTerminated pyval

section \<open>The provider\<close>

text \<open>
  Modelled from the spec: the remote provisioning API (query of instances by tag and
  state, create-instance, terminate-instance, modify-instance-attribute, delete-tag
  and the waiters), which the module reaches through the SDK client and which is not
  part of the repository. It is modelled as far as the module observes it: instances
  grouped in reservations, each with an identifier, a state, tags, addresses and
  attached security groups; a log of the calls received; the identifier and private
  address the provider gives to the next instance; and the outcome of a wait, which
  depends on time and is left to the provider.
\<close>

datatype instance_state = pending | running | shutting_down | terminated | stopping | stopped

fun state_name :: "instance_state \<Rightarrow> string" where
  "state_name pending = ''pending''"
| "state_name running = ''running''"
| "state_name shutting_down = ''shutting-down''"
| "state_name terminated = ''terminated''"
| "state_name stopping = ''stopping''"
| "state_name stopped = ''stopped''"

record ec2_instance =
  inst_id :: string
  inst_state :: instance_state
  inst_tags :: "(string \<times> string) list"
  inst_private :: string
  inst_public :: "string option"
  inst_groups :: "string list"

record ec2 =
  reservations :: "ec2_instance list list"
  calls :: "api_call list"
  allocate :: "nat \<Rightarrow> string \<times> string"
  wait_ok :: "api_call \<Rightarrow> bool"

definition received :: "api_call \<Rightarrow> ec2 \<Rightarrow> ec2" where
  "received c w = w\<lparr>calls := calls w @ [c]\<rparr>"

text \<open>
  Modelled from the spec: the description of an instance as \<open>describe_instances\<close>
  returns it, with the fields the module reads. The key \<open>PublicIpAddress\<close> is present
  only when a public address is assigned. The answer holds the reservations that have
  an instance matching both filters, each with its matching instances.
\<close>

definition describe_instance :: "ec2_instance \<Rightarrow> pyval dict" where
  "describe_instance i =
     [(''InstanceId'', Str (inst_id i)),
      (''PrivateIpAddress'', Str (inst_private i)),
      (''SecurityGroups'', Dicts (map (\<lambda>g. [(''GroupId'', g)]) (inst_groups i)))]
     @ (case inst_public i of None \<Rightarrow> [] | Some a \<Rightarrow> [(''PublicIpAddress'', Str a)])"

definition matches :: "string \<Rightarrow> string list \<Rightarrow> ec2_instance \<Rightarrow> bool" where
  "matches n states i =
     (map_of (inst_tags i) ''Name'' = Some n \<and> state_name (inst_state i) \<in> set states)"

text \<open>The matching instances, reservation by reservation; an empty reservation is left out.\<close>

definition matching :: "string \<Rightarrow> string list \<Rightarrow> ec2 \<Rightarrow> ec2_instance list list" where
  "matching n states w =
     filter (\<lambda>r. r \<noteq> []) (map (filter (matches n states)) (reservations w))"

definition describe_instances ::
  "string \<Rightarrow> string list \<Rightarrow> ec2 \<Rightarrow> (error + pyval dict list list) \<times> ec2" where
  "describe_instances n states w =
     (Inr (map (map describe_instance) (matching n states w)),
      received (DescribeInstances n states) w)"

definition has_id :: "pyval \<Rightarrow> ec2_instance \<Rightarrow> bool" where
  "has_id v i = (v = Str (inst_id i))"

definition known :: "pyval \<Rightarrow> ec2 \<Rightarrow> bool" where
  "known v w = list_ex (has_id v) (concat (reservations w))"

definition update_instances ::
  "(ec2_instance \<Rightarrow> bool) \<Rightarrow> (ec2_instance \<Rightarrow> ec2_instance) \<Rightarrow> ec2 \<Rightarrow> ec2" where
  "update_instances P f w =
     w\<lparr>reservations := map (map (\<lambda>i. if P i then f i else i)) (reservations w)\<rparr>"

text \<open>
  Modelled from the spec: the effect of the requests. A request for an identifier the
  provider does not know is answered with an error response, which the SDK raises as
  \<open>ClientError\<close>. So is, by the SDK's documentation of the \<open>DryRun\<close> parameter, every
  request with \<open>DryRun\<close> set (\<open>DryRunOperation\<close> when the request would have
  succeeded); nothing is created or changed by it. A real \<open>run_instances\<close> request
  creates one reservation holding one \<open>pending\<close> instance that carries the request's
  tags and security groups; \<open>terminate_instances\<close> leaves the instance shutting down;
  \<open>modify_instance_attribute\<close> replaces the attached groups; \<open>delete_tags\<close> removes
  the tags with the given keys. A tag dict without \<open>Key\<close> or \<open>Value\<close> counts as
  having the empty string there.
\<close>

definition tag_pair :: "string dict \<Rightarrow> string \<times> string" where
  "tag_pair t =
     (case map_of t ''Key'' of None \<Rightarrow> [] | Some k \<Rightarrow> k,
      case map_of t ''Value'' of None \<Rightarrow> [] | Some v \<Rightarrow> v)"

definition run_instances :: "run_request \<Rightarrow> ec2 \<Rightarrow> (error + pyval dict list) \<times> ec2" where
  "run_instances req w =
     (let w1 = received (RunInstances req) w in
      if DryRun req then (Inl (ClientError ''DryRunOperation''), w1)
      else
        let (new_id, new_private) = allocate w (length (concat (reservations w)));
            i = \<lparr>inst_id = new_id, inst_state = pending,
                 inst_tags = map tag_pair (Tags req),
                 inst_private = new_private, inst_public = None,
                 inst_groups = SecurityGroupIds req\<rparr>
        in (Inr [describe_instance i], w1\<lparr>reservations := reservations w1 @ [[i]]\<rparr>))"

definition terminate_instances :: "pyval list \<Rightarrow> bool \<Rightarrow> ec2 \<Rightarrow> (error + unit) \<times> ec2" where
  "terminate_instances ids dry w =
     (let w1 = received (TerminateInstances ids dry) w in
      if dry then (Inl (ClientError ''DryRunOperation''), w1)
      else if \<not> list_all (\<lambda>v. known v w) ids then
        (Inl (ClientError ''InvalidInstanceID.NotFound''), w1)
      else (Inr (),
            update_instances (\<lambda>i. list_ex (\<lambda>v. has_id v i) ids \<and> inst_state i \<noteq> terminated)
              (\<lambda>i. i\<lparr>inst_state := shutting_down\<rparr>) w1))"

definition modify_instance_attribute ::
  "pyval \<Rightarrow> string list \<Rightarrow> ec2 \<Rightarrow> (error + unit) \<times> ec2" where
  "modify_instance_attribute v groups w =
     (let w1 = received (ModifyInstanceAttribute v groups) w in
      if \<not> known v w then (Inl (ClientError ''InvalidInstanceID.NotFound''), w1)
      else (Inr (), update_instances (has_id v) (\<lambda>i. i\<lparr>inst_groups := groups\<rparr>) w1))"

definition delete_tags :: "pyval \<Rightarrow> string list \<Rightarrow> ec2 \<Rightarrow> (error + unit) \<times> ec2" where
  "delete_tags v keys w =
     (let w1 = received (DeleteTags v keys) w in
      if \<not> known v w then (Inl (ClientError ''InvalidID''), w1)
      else (Inr (),
            update_instances (has_id v)
              (\<lambda>i. i\<lparr>inst_tags := filter (\<lambda>(k, _). k \<notin> set keys) (inst_tags i)\<rparr>) w1))"

definition wait :: "api_call \<Rightarrow> ec2 \<Rightarrow> (error + unit) \<times> ec2" where
  "wait c w = (if wait_ok w c then Inr () else Inl WaiterError, received c w)"

section \<open>The handle\<close>

text \<open>
  The three \<open>RuntimeError\<close>s the module raises, under the names the specification
  gives them: not-found, invalid-operation and duplicate.
\<close>

definition not_found :: error where
  "not_found =
     RuntimeError
       ''Could not find info for instance. Perhaps it is not in 'RUNNING' or 'PENDING' state?''"

definition invalid_operation :: error where
  "invalid_operation =
     RuntimeError ''Cannot remove security group if the instance isn't running''"

definition duplicate :: "string \<Rightarrow> error" where
  "duplicate n = RuntimeError (''Instance with Name '' @ n @ '' already exists'')"

text \<open>
  The attributes of an \<open>EC2Node\<close>. The session and the clients made by \<open>__init__\<close>
  are the connection to the provider, which the methods below receive as the
  provider's state; \<open>instance_info\<close> is the attribute \<open>_instance_info\<close>.
\<close>

record EC2Node =
  name :: string
  region :: string
  instance_info :: "pyval dict option"
  always_verbose :: bool

definition init :: "string \<Rightarrow> string \<Rightarrow> bool \<Rightarrow> EC2Node" where
  "init n r v = \<lparr>name = n, region = r, instance_info = None, always_verbose = v\<rparr>"

text \<open>A call of the client: the handle is untouched, the provider answers.\<close>

definition client ::
  "(ec2 \<Rightarrow> (error + 'a) \<times> ec2) \<Rightarrow> EC2Node \<times> ec2 \<Rightarrow> (error + 'a) \<times> EC2Node \<times> ec2" where
  "client call s = (case call (snd s) of (r, w') \<Rightarrow> (r, fst s, w'))"

text \<open>
  \<open>len(response["Reservations"]) > 0\<close> decides between \<open>None\<close> and
  \<open>response['Reservations'][0]['Instances'][0]\<close>; the second subscript raises
  \<open>IndexError\<close> on a reservation without instances.
\<close>

definition query_for_instance_info ::
  "EC2Node \<times> ec2 \<Rightarrow> (error + pyval dict option) \<times> EC2Node \<times> ec2" where
  "query_for_instance_info s =
     and_then (client (describe_instances (name (fst s)) [''running'', ''pending'']) s)
       (\<lambda>response s.
          case response of
            [] \<Rightarrow> (Inr None, s)
          | r # _ \<Rightarrow> (case r of [] \<Rightarrow> (Inl IndexError, s) | info # _ \<Rightarrow> (Inr (Some info), s)))"

definition lazy_load_instance_info :: "EC2Node \<times> ec2 \<Rightarrow> (error + unit) \<times> EC2Node \<times> ec2" where
  "lazy_load_instance_info s =
     (if \<not> truthy (instance_info (fst s)) then
        and_then (query_for_instance_info s)
          (\<lambda>info (self, w).
             case info of
               None \<Rightarrow> (Inl not_found, self, w)
             | Some d \<Rightarrow> (Inr (), self\<lparr>instance_info := Some d\<rparr>, w))
      else (Inr (), s))"

text \<open>\<open>self._instance_info[k]\<close>; subscripting \<open>None\<close> is a \<open>TypeError\<close>.\<close>

definition subscript_info :: "EC2Node \<Rightarrow> string \<Rightarrow> error + pyval" where
  "subscript_info self k =
     (case instance_info self of None \<Rightarrow> Inl TypeError | Some d \<Rightarrow> getitem d k)"

definition instance_id :: "EC2Node \<times> ec2 \<Rightarrow> (error + pyval) \<times> EC2Node \<times> ec2" where
  "instance_id s =
     and_then (lazy_load_instance_info s) (\<lambda>_ s. (subscript_info (fst s) ''InstanceId'', s))"

definition private_ip :: "EC2Node \<times> ec2 \<Rightarrow> (error + pyval) \<times> EC2Node \<times> ec2" where
  "private_ip s =
     and_then (lazy_load_instance_info s) (\<lambda>_ s. (subscript_info (fst s) ''PrivateIpAddress'', s))"

text \<open>The result \<open>None\<close> of \<open>public_ip\<close> is the Python value \<open>None\<close>.\<close>

definition public_ip :: "EC2Node \<times> ec2 \<Rightarrow> (error + pyval option) \<times> EC2Node \<times> ec2" where
  "public_ip s =
     and_then (lazy_load_instance_info s)
       (\<lambda>_ s. (case instance_info (fst s) of
                  None \<Rightarrow> Inl AttributeError
                | Some d \<Rightarrow>
                    (if ''PublicIpAddress'' \<in> set (map fst d)
                     then map_sum id Some (getitem d ''PublicIpAddress'')
                     else Inr None),
                s))"

text \<open>
  \<open>[sg["GroupId"] for sg in self._instance_info["SecurityGroups"]]\<close>. A string
  iterates over its characters, and subscripting a character with \<open>"GroupId"\<close> is a
  \<open>TypeError\<close>.
\<close>

fun group_ids :: "string dict list \<Rightarrow> error + string list" where
  "group_ids [] = Inr []"
| "group_ids (sg # sgs) =
     (case getitem sg ''GroupId'' of
        Inl e \<Rightarrow> Inl e
      | Inr g \<Rightarrow> (case group_ids sgs of Inl e \<Rightarrow> Inl e | Inr gs \<Rightarrow> Inr (g # gs)))"

definition security_groups :: "EC2Node \<times> ec2 \<Rightarrow> (error + string list) \<times> EC2Node \<times> ec2" where
  "security_groups s =
     and_then (lazy_load_instance_info s)
       (\<lambda>_ s. (case subscript_info (fst s) ''SecurityGroups'' of
                  Inl e \<Rightarrow> Inl e
                | Inr (Dicts sgs) \<Rightarrow> group_ids sgs
                | Inr (Str cs) \<Rightarrow> (if cs = [] then Inr [] else Inl TypeError),
                s))"

text \<open>\<open>states\<close> is a list of state names, or one state name as a string.\<close>

datatype states_arg = StateName string | StateNames "string list"

text \<open>\<open>if isinstance(states, str): states = [states]\<close>\<close>

definition state_names :: "states_arg \<Rightarrow> string list" where
  "state_names states = (case states of StateName st \<Rightarrow> [st] | StateNames sts \<Rightarrow> sts)"

definition is_in_state :: "states_arg \<Rightarrow> EC2Node \<times> ec2 \<Rightarrow> (error + bool) \<times> EC2Node \<times> ec2" where
  "is_in_state states s =
     and_then (client (describe_instances (name (fst s)) (state_names states)) s)
       (\<lambda>response s. (Inr (length response > 0), s))"

definition is_running_or_pending :: "EC2Node \<times> ec2 \<Rightarrow> (error + bool) \<times> EC2Node \<times> ec2" where
  "is_running_or_pending s = is_in_state (StateNames [''running'', ''pending'']) s"

definition detach_security_group ::
  "string \<Rightarrow> EC2Node \<times> ec2 \<Rightarrow> (error + unit) \<times> EC2Node \<times> ec2" where
  "detach_security_group sg_id s =
     and_then (is_running_or_pending s)
       (\<lambda>b s.
          if \<not> b then (Inl invalid_operation, s)
          else
            and_then (security_groups s)
              (\<lambda>sgs s.
                 let new_sgs = filter (\<lambda>sg. sg \<noteq> sg_id) sgs in
                 and_then (instance_id s)
                   (\<lambda>i s. client (modify_instance_attribute i new_sgs) s)))"

definition wait_for_instance_to_be_running ::
  "EC2Node \<times> ec2 \<Rightarrow> (error + unit) \<times> EC2Node \<times> ec2" where
  "wait_for_instance_to_be_running s = client (wait (WaitInstanceRunning (name (fst s)))) s"

definition wait_for_instance_to_be_status_ok ::
  "EC2Node \<times> ec2 \<Rightarrow> (error + unit) \<times> EC2Node \<times> ec2" where
  "wait_for_instance_to_be_status_ok s =
     and_then (instance_id s) (\<lambda>i s. client (wait (WaitInstanceStatusOk [i])) s)"

definition wait_for_instance_to_be_terminated ::
  "EC2Node \<times> ec2 \<Rightarrow> (error + unit) \<times> EC2Node \<times> ec2" where
  "wait_for_instance_to_be_terminated s =
     and_then (instance_id s) (\<lambda>i s. client (wait (WaitInstanceTerminated i)) s)"

section \<open>Launch and terminate\<close>

text \<open>
  The parameters of \<open>launch\<close>. \<open>security_group_ids\<close> is a list, and \<open>tags\<close> is
  \<open>None\<close> or a list of dicts with string values, so the three \<open>isinstance\<close>
  assertions hold by typing.
\<close>

record launch_args =
  az :: string
  vpc_id :: string
  subnet_id :: string
  ami_id :: string
  ebs_snapshot_id :: string
  volume_size_gb :: int
  volume_type :: string
  key_name :: string
  security_group_ids :: "string list"
  iam_ec2_role_name :: string
  instance_type :: string
  placement_group_name :: "string option"
  iops :: "int option"
  eia_type :: "string option"
  ebs_optimized :: bool
  tags :: "string dict list option"
  dry_run :: bool

text \<open>The loop over the caller's tags: the first failing assertion is raised.\<close>

fun validate_tags :: "string dict list \<Rightarrow> error option" where
  "validate_tags [] = None"
| "validate_tags (tag # rest) =
     (if ''Key'' \<notin> set (map fst tag) then
        Some (AssertionError
          ''Each tag must have both a 'Key' and a 'Value' field. 'Key' missing'')
      else if \<not> (map_of tag ''Key'' \<noteq> Some ''Name'') then
        Some (AssertionError
          '''Name' tag cannot be included as a tag. It will be set according to the Name defined at instantiation'')
      else if ''Value'' \<notin> set (map fst tag) then
        Some (AssertionError
          ''Each tag must have both a 'Key' and a 'Value' field. 'Value' missing'')
      else validate_tags rest)"

text \<open>The section "Validate input": \<open>None\<close> when every assertion holds.\<close>

definition validate_input :: "launch_args \<Rightarrow> error option" where
  "validate_input a =
     (if \<not> (length (security_group_ids a) > 0) then
        Some (AssertionError ''security_group_ids must be a nonempty list'')
      else if (case eia_type a of None \<Rightarrow> False | Some e \<Rightarrow> \<not> startswith e ''eia1'') then
        Some (AssertionError ''eia_type must be in the form `eia1.large`'')
      else if volume_type a = ''io1'' \<and> \<not> (iops a \<noteq> None) then
        Some (AssertionError [])
      else
        (case tags a of
           None \<Rightarrow> None
         | Some ts \<Rightarrow>
             (if ts = [] then None
              else if \<not> (length ts \<noteq> 0) then
                Some (AssertionError ''Tags cannot be an empty list. Use None instead'')
              else validate_tags ts)))"

text \<open>The section "Convert input to match SDK argument syntax".\<close>

definition placement_params :: "launch_args \<Rightarrow> placement" where
  "placement_params a =
     \<lparr>AvailabilityZone = az a,
      GroupName = placement_group_name a\<rparr>"

definition eia_param_list :: "launch_args \<Rightarrow> string list" where
  "eia_param_list a = (case eia_type a of None \<Rightarrow> [] | Some e \<Rightarrow> [e])"

definition all_tags :: "EC2Node \<Rightarrow> launch_args \<Rightarrow> string dict list" where
  "all_tags self a =
     [(''Key'', ''Name''), (''Value'', name self)]
     # (case tags a of None \<Rightarrow> [] | Some ts \<Rightarrow> (if ts = [] then [] else ts))"

text \<open>\<open>if iops:\<close> is false for \<open>None\<close> and for \<open>0\<close>.\<close>

definition ebs_params :: "launch_args \<Rightarrow> ebs" where
  "ebs_params a =
     \<lparr>SnapshotId = ebs_snapshot_id a, VolumeSize = volume_size_gb a,
      VolumeType = volume_type a,
      Iops = (case iops a of None \<Rightarrow> None | Some n \<Rightarrow> (if n \<noteq> 0 then Some n else None))\<rparr>"

definition run_instances_request :: "EC2Node \<Rightarrow> launch_args \<Rightarrow> run_request" where
  "run_instances_request self a =
     \<lparr>DeviceName = ''/dev/xvda'',
      Ebs = ebs_params a,
      ImageId = ami_id a,
      InstanceType = instance_type a,
      KeyName = key_name a,
      MaxCount = 1,
      MinCount = 1,
      MonitoringEnabled = False,
      Placement = placement_params a,
      SecurityGroupIds = security_group_ids a,
      SubnetId = subnet_id a,
      DryRun = dry_run a,
      EbsOptimized = ebs_optimized a,
      IamInstanceProfileName = iam_ec2_role_name a,
      ElasticInferenceAccelerators = eia_param_list a,
      Tags = all_tags self a\<rparr>"

definition launch ::
  "launch_args \<Rightarrow> EC2Node \<times> ec2 \<Rightarrow> (error + pyval dict list) \<times> EC2Node \<times> ec2" where
  "launch a s =
     (case validate_input a of
        Some e \<Rightarrow> (Inl e, s)
      | None \<Rightarrow>
          and_then (is_running_or_pending s)
            (\<lambda>b s.
               if b then (Inl (duplicate (name (fst s))), s)
               else client (run_instances (run_instances_request (fst s) a)) s))"

text \<open>
  \<open>self.ec2_resource.Instance(instance_id)\<close> builds a local resource object without
  a remote call; \<open>delete_tags\<close> on it is the remote call.
\<close>

definition terminate :: "bool \<Rightarrow> EC2Node \<times> ec2 \<Rightarrow> (error + unit) \<times> EC2Node \<times> ec2" where
  "terminate dry s =
     and_then (instance_id s)
       (\<lambda>i s.
          and_then (client (terminate_instances [i] dry) s)
            (\<lambda>_ s. client (delete_tags i [''Name'']) s))"

section \<open>Notions used by the properties\<close>

text \<open>
  The instances that carry the name \<open>n\<close> in their \<open>Name\<close> tag and are running or
  pending, in the provider's order.
\<close>

definition live :: "string \<Rightarrow> ec2 \<Rightarrow> ec2_instance list" where
  "live n w =
     filter (\<lambda>i. map_of (inst_tags i) ''Name'' = Some n
                 \<and> (inst_state i = running \<or> inst_state i = pending))
       (concat (reservations w))"

text \<open>The query by which a handle named \<open>n\<close> resolves its instance.\<close>

definition resolution_query :: "string \<Rightarrow> api_call" where
  "resolution_query n = DescribeInstances n [''running'', ''pending'']"

text \<open>The tags a caller passes to \<open>launch\<close>.\<close>

definition caller_tags :: "launch_args \<Rightarrow> string dict list" where
  "caller_tags a = (case tags a of None \<Rightarrow> [] | Some ts \<Rightarrow> ts)"

text \<open>
  The operations of a handle, and a step of the environment, which changes the
  provider's state behind the handle's back. \<open>perform\<close> gives the state an operation
  leaves, whether it returned or raised.
\<close>

datatype operation =
    Instance_id
  | Private_ip
  | Public_ip
  | Security_groups
  | Detach_security_group string
  | Query_for_instance_info
  | Is_running_or_pending
  | Is_in_state states_arg
  | Wait_for_instance_to_be_running
  | Wait_for_instance_to_be_status_ok
  | Wait_for_instance_to_be_terminated
  | Launch launch_args
  | Terminate bool
  | Environment "ec2 \<Rightarrow> ec2"

fun perform :: "operation \<Rightarrow> EC2Node \<times> ec2 \<Rightarrow> EC2Node \<times> ec2" where
  "perform Instance_id s = snd (instance_id s)"
| "perform Private_ip s = snd (private_ip s)"
| "perform Public_ip s = snd (public_ip s)"
| "perform Security_groups s = snd (security_groups s)"
| "perform (Detach_security_group sg_id) s = snd (detach_security_group sg_id s)"
| "perform Query_for_instance_info s = snd (query_for_instance_info s)"
| "perform Is_running_or_pending s = snd (is_running_or_pending s)"
| "perform (Is_in_state states) s = snd (is_in_state states s)"
| "perform Wait_for_instance_to_be_running s = snd (wait_for_instance_to_be_running s)"
| "perform Wait_for_instance_to_be_status_ok s = snd (wait_for_instance_to_be_status_ok s)"
| "perform Wait_for_instance_to_be_terminated s = snd (wait_for_instance_to_be_terminated s)"
| "perform (Launch a) s = snd (launch a s)"
| "perform (Terminate dry) s = snd (terminate dry s)"
| "perform (Environment f) s = (fst s, f (snd s))"

definition run :: "operation list \<Rightarrow> EC2Node \<times> ec2 \<Rightarrow> EC2Node \<times> ec2" where
  "run ops s = fold perform ops s"

section \<open>Example states\<close>

definition example_instance ::
  "string \<Rightarrow> instance_state \<Rightarrow> string \<Rightarrow> string list \<Rightarrow> ec2_instance" where
  "example_instance i st n gs =
     \<lparr>inst_id = i, inst_state = st, inst_tags = [(''Name'', n)],
      inst_private = ''10.0.0.1'', inst_public = None, inst_groups = gs\<rparr>"

definition example_ec2 :: "ec2_instance list list \<Rightarrow> ec2" where
  "example_ec2 rs =
     \<lparr>reservations = rs, calls = [],
      allocate = (\<lambda>k. (''i-new'', ''10.0.0.2'')), wait_ok = (\<lambda>c. True)\<rparr>"

definition example_args :: launch_args where
  "example_args =
     \<lparr>az = ''us-east-1f'', vpc_id = ''vpc-1'', subnet_id = ''subnet-1'', ami_id = ''ami-1'',
      ebs_snapshot_id = ''snapshot-1'', volume_size_gb = 100, volume_type = ''gp2'',
      key_name = ''key'', security_group_ids = [''sg-a''], iam_ec2_role_name = ''role'',
      instance_type = ''p3.16xlarge'', placement_group_name = None, iops = None,
      eia_type = None, ebs_optimized = True, tags = None, dry_run = False\<rparr>"

section \<open>Basic facts\<close>

lemma and_then_Inl [simp]: "and_then (Inl e, s) f = (Inl e, s)"
  by (simp add: and_then_def)

lemma and_then_Inr [simp]: "and_then (Inr x, s) f = f x s"
  by (simp add: and_then_def)

lemma client_describe [simp]:
  "client (describe_instances n states) (self, w) =
     (Inr (map (map describe_instance) (matching n states w)), self,
      received (DescribeInstances n states) w)"
  by (simp add: client_def describe_instances_def)

lemma first_of_reservations:
  "(case filter (\<lambda>r. r \<noteq> []) (map (filter P) xss) of
      [] \<Rightarrow> a
    | r # _ \<Rightarrow> (case r of [] \<Rightarrow> b | i # _ \<Rightarrow> f i))
   = (case filter P (concat xss) of [] \<Rightarrow> a | i # _ \<Rightarrow> f i)"
proof (induction xss)
  case Nil
  show ?case by simp
next
  case (Cons xs xss)
  show ?case
  proof (cases "filter P xs")
    case Nil
    with Cons show ?thesis by simp
  next
    case (Cons i rest)
    then show ?thesis by simp
  qed
qed

lemma no_reservation_iff:
  "filter (\<lambda>r. r \<noteq> []) (map (filter P) xss) = [] \<longleftrightarrow> filter P (concat xss) = []"
  by (induction xss) auto

lemma matches_running_pending:
  "matches n [''running'', ''pending''] i \<longleftrightarrow>
     map_of (inst_tags i) ''Name'' = Some n \<and> (inst_state i = running \<or> inst_state i = pending)"
  by (cases "inst_state i") (simp_all add: matches_def)

lemma live_eq: "filter (matches n [''running'', ''pending'']) (concat (reservations w)) = live n w"
proof -
  have "matches n [''running'', ''pending''] =
        (\<lambda>i. map_of (inst_tags i) ''Name'' = Some n \<and> (inst_state i = running \<or> inst_state i = pending))"
    by (rule ext) (rule matches_running_pending)
  then show ?thesis by (simp add: live_def)
qed

lemma case_map_map:
  "(case map (map g) m of [] \<Rightarrow> a | r # _ \<Rightarrow> (case r of [] \<Rightarrow> b | x # _ \<Rightarrow> f x))
   = (case m of [] \<Rightarrow> a | r # _ \<Rightarrow> (case r of [] \<Rightarrow> b | i # _ \<Rightarrow> f (g i)))"
  by (cases m; cases "hd m") auto

lemma first_match:
  "(case map (map describe_instance) (matching n [''running'', ''pending''] w) of
      [] \<Rightarrow> a
    | r # _ \<Rightarrow> (case r of [] \<Rightarrow> b | info # _ \<Rightarrow> f info))
   = (case live n w of [] \<Rightarrow> a | i # _ \<Rightarrow> f (describe_instance i))"
  unfolding matching_def case_map_map first_of_reservations live_eq ..

lemma query_for_instance_info_eq:
  "query_for_instance_info (self, w) =
     (Inr (case live (name self) w of [] \<Rightarrow> None | i # _ \<Rightarrow> Some (describe_instance i)),
      self, received (resolution_query (name self)) w)"
  by (simp add: query_for_instance_info_def resolution_query_def first_match split: list.splits)

lemma lazy_load_truthy:
  "truthy (instance_info self) \<Longrightarrow> lazy_load_instance_info (self, w) = (Inr (), self, w)"
  by (simp add: lazy_load_instance_info_def)

lemma lazy_load_falsy:
  "\<not> truthy (instance_info self) \<Longrightarrow>
   lazy_load_instance_info (self, w) =
     (case live (name self) w of
        [] \<Rightarrow> (Inl not_found, self, received (resolution_query (name self)) w)
      | i # _ \<Rightarrow> (Inr (), self\<lparr>instance_info := Some (describe_instance i)\<rparr>,
                  received (resolution_query (name self)) w))"
  by (simp add: lazy_load_instance_info_def query_for_instance_info_eq split: list.splits)

lemma is_in_state_eq:
  "is_in_state states (self, w) =
     (Inr (filter (matches (name self) (state_names states)) (concat (reservations w)) \<noteq> []),
      self, received (DescribeInstances (name self) (state_names states)) w)"
  by (simp add: is_in_state_def matching_def no_reservation_iff)

lemma is_running_or_pending_eq:
  "is_running_or_pending (self, w) =
     (Inr (live (name self) w \<noteq> []), self, received (resolution_query (name self)) w)"
  by (simp add: is_running_or_pending_def is_in_state_eq state_names_def live_eq resolution_query_def)

lemma init_simps [simp]:
  "name (init n r v) = n" "region (init n r v) = r"
  "instance_info (init n r v) = None" "always_verbose (init n r v) = v"
  by (simp_all add: init_def)

section \<open>Properties\<close>

text \<open>
  C1. When no running or pending instance carries the handle's name,
  \<open>query_for_instance_info\<close> returns \<open>None\<close> after its one query, and on a handle
  whose snapshot is not yet loaded each of the four attribute accessors
  (\<open>instance_id\<close>, \<open>private_ip\<close>, \<open>public_ip\<close>, \<open>security_groups\<close>) raises the
  not-found error, leaving the handle as it was.
\<close>

theorem not_found_when_no_live_instance:
  assumes "live (name self) w = []"
  shows "query_for_instance_info (self, w) =
           (Inr None, self, received (resolution_query (name self)) w)
       \<and> (\<not> truthy (instance_info self) \<longrightarrow>
            instance_id (self, w) = (Inl not_found, self, received (resolution_query (name self)) w)
          \<and> private_ip (self, w) = (Inl not_found, self, received (resolution_query (name self)) w)
          \<and> public_ip (self, w) = (Inl not_found, self, received (resolution_query (name self)) w)
          \<and> security_groups (self, w) =
              (Inl not_found, self, received (resolution_query (name self)) w))"
  using assms
  by (simp add: query_for_instance_info_eq lazy_load_falsy instance_id_def private_ip_def
      public_ip_def security_groups_def)

theorem not_found_when_no_live_instance_witness:
  "live ''node'' (example_ec2 [[example_instance ''i-1'' stopped ''node'' [''sg-a'']]]) = []
   \<and> \<not> truthy (instance_info (init ''node'' ''us-east-1'' False))
   \<and> fst (query_for_instance_info
        (init ''node'' ''us-east-1'' False,
         example_ec2 [[example_instance ''i-1'' stopped ''node'' [''sg-a'']]])) = Inr None
   \<and> fst (instance_id
        (init ''node'' ''us-east-1'' False,
         example_ec2 [[example_instance ''i-1'' stopped ''node'' [''sg-a'']]])) = Inl not_found
   \<and> fst (public_ip
        (init ''node'' ''us-east-1'' False,
         example_ec2 [[example_instance ''i-1'' stopped ''node'' [''sg-a'']]])) = Inl not_found"
proof -
  have l: "live (name (init ''node'' ''us-east-1'' False))
             (example_ec2 [[example_instance ''i-1'' stopped ''node'' [''sg-a'']]]) = []"
    by (simp add: live_def example_ec2_def example_instance_def)
  have t: "\<not> truthy (instance_info (init ''node'' ''us-east-1'' False))"
    by (simp add: truthy_def init_def)
  show ?thesis
    using not_found_when_no_live_instance [OF l] t l by (simp add: init_def)
qed

text \<open>
  C5, as stated, fails where it says that the query fails on more than one match:
  with two live instances of the name, in two reservations, the query returns the
  description of the first one.
\<close>

theorem query_for_instance_info_two_matches:
  "length (live ''node''
     (example_ec2 [[example_instance ''i-1'' running ''node'' [''sg-a'']],
                   [example_instance ''i-2'' pending ''node'' [''sg-a'']]])) = 2
   \<and> fst (query_for_instance_info
        (init ''node'' ''us-east-1'' False,
         example_ec2 [[example_instance ''i-1'' running ''node'' [''sg-a'']],
                      [example_instance ''i-2'' pending ''node'' [''sg-a'']]]))
     = Inr (Some (describe_instance (example_instance ''i-1'' running ''node'' [''sg-a''])))"
  by (simp add: query_for_instance_info_eq live_def example_ec2_def example_instance_def init_def)

text \<open>
  C5, amended. \<open>query_for_instance_info\<close> returns \<open>None\<close> when no running or pending
  instance carries the name, and otherwise the description of the first such
  instance in the provider's answer: the only one when exactly one matches, and the
  first instance of the first reservation, without an error, when several match.
\<close>

theorem query_for_instance_info_first_match:
  "(live (name self) w = [] \<longrightarrow>
      query_for_instance_info (self, w) =
        (Inr None, self, received (resolution_query (name self)) w))
 \<and> (\<forall>i rest. live (name self) w = i # rest \<longrightarrow>
      query_for_instance_info (self, w) =
        (Inr (Some (describe_instance i)), self, received (resolution_query (name self)) w))"
  by (simp add: query_for_instance_info_eq)

theorem query_for_instance_info_first_match_witness:
  "live ''node''
     (example_ec2 [[example_instance ''i-1'' running ''node'' [''sg-a'']],
                   [example_instance ''i-2'' pending ''node'' [''sg-a'']]])
     = [example_instance ''i-1'' running ''node'' [''sg-a''],
        example_instance ''i-2'' pending ''node'' [''sg-a'']]
   \<and> fst (query_for_instance_info
        (init ''node'' ''us-east-1'' False,
         example_ec2 [[example_instance ''i-1'' running ''node'' [''sg-a'']],
                      [example_instance ''i-2'' pending ''node'' [''sg-a'']]]))
     = Inr (Some (describe_instance (example_instance ''i-1'' running ''node'' [''sg-a''])))
   \<and> live ''node'' (example_ec2 []) = []
   \<and> fst (query_for_instance_info (init ''node'' ''us-east-1'' False, example_ec2 [])) = Inr None"
proof -
  let ?w = "example_ec2 [[example_instance ''i-1'' running ''node'' [''sg-a'']],
                   [example_instance ''i-2'' pending ''node'' [''sg-a'']]]"
  have l: "live ''node'' ?w
     = [example_instance ''i-1'' running ''node'' [''sg-a''],
        example_instance ''i-2'' pending ''node'' [''sg-a'']]"
    by (simp add: live_def example_ec2_def example_instance_def)
  have e: "live ''node'' (example_ec2 []) = []"
    by (simp add: live_def example_ec2_def)
  show ?thesis
    using query_for_instance_info_first_match [of "init ''node'' ''us-east-1'' False" ?w]
      query_for_instance_info_first_match [of "init ''node'' ''us-east-1'' False" "example_ec2 []"]
    by (simp add: l e)
qed

lemma accessor_world_falsy:
  assumes "\<not> truthy (instance_info self)"
  shows "snd (snd (instance_id (self, w))) = received (resolution_query (name self)) w"
    and "snd (snd (private_ip (self, w))) = received (resolution_query (name self)) w"
    and "snd (snd (public_ip (self, w))) = received (resolution_query (name self)) w"
    and "snd (snd (security_groups (self, w))) = received (resolution_query (name self)) w"
  using assms
  by (simp_all add: instance_id_def private_ip_def public_ip_def security_groups_def
      lazy_load_falsy split: list.splits)

lemma filter_nonempty_list_ex: "filter P xs \<noteq> [] \<longleftrightarrow> list_ex P xs"
  by (simp add: filter_empty_conv list_ex_iff)

text \<open>
  C8. \<open>is_in_state\<close> answers from one fresh query with the given state names: the
  result is whether some instance of the name is in one of the states, the handle,
  and with it the cached snapshot, comes back unchanged, and neither the result nor
  the provider's state depends on what the cache holds. \<open>is_running_or_pending\<close> is
  \<open>is_in_state\<close> with \<open>running\<close> and \<open>pending\<close>. An accessor called afterwards on a
  handle whose snapshot is not loaded still sends its own resolution query.
\<close>

theorem is_in_state_bypasses_cache:
  "is_in_state states (self, w) =
     (Inr (list_ex (matches (name self) (state_names states)) (concat (reservations w))),
      self, received (DescribeInstances (name self) (state_names states)) w)
   \<and> is_running_or_pending (self, w) = is_in_state (StateNames [''running'', ''pending'']) (self, w)
   \<and> fst (is_in_state states (self\<lparr>instance_info := c\<rparr>, w)) = fst (is_in_state states (self, w))
   \<and> snd (snd (is_in_state states (self\<lparr>instance_info := c\<rparr>, w))) = snd (snd (is_in_state states (self, w)))
   \<and> (\<not> truthy (instance_info self) \<longrightarrow>
        snd (snd (instance_id (snd (is_in_state states (self, w)))))
          = received (resolution_query (name self)) (snd (snd (is_in_state states (self, w))))
      \<and> snd (snd (private_ip (snd (is_in_state states (self, w)))))
          = received (resolution_query (name self)) (snd (snd (is_in_state states (self, w))))
      \<and> snd (snd (public_ip (snd (is_in_state states (self, w)))))
          = received (resolution_query (name self)) (snd (snd (is_in_state states (self, w))))
      \<and> snd (snd (security_groups (snd (is_in_state states (self, w)))))
          = received (resolution_query (name self)) (snd (snd (is_in_state states (self, w)))))"
  by (simp add: is_in_state_eq filter_nonempty_list_ex is_running_or_pending_def accessor_world_falsy)

theorem is_in_state_bypasses_cache_witness:
  "\<not> truthy (instance_info (init ''node'' ''us-east-1'' False))
   \<and> is_in_state (StateName ''stopped'')
       (init ''node'' ''us-east-1'' False,
        example_ec2 [[example_instance ''i-1'' stopped ''node'' [''sg-a'']]])
     = (Inr True, init ''node'' ''us-east-1'' False,
        received (DescribeInstances ''node'' [''stopped''])
          (example_ec2 [[example_instance ''i-1'' stopped ''node'' [''sg-a'']]]))
   \<and> calls (snd (snd (instance_id (snd (is_in_state (StateName ''stopped'')
       (init ''node'' ''us-east-1'' False,
        example_ec2 [[example_instance ''i-1'' stopped ''node'' [''sg-a'']]]))))))
     = [DescribeInstances ''node'' [''stopped''], DescribeInstances ''node'' [''running'', ''pending'']]"
proof -
  let ?h = "init ''node'' ''us-east-1'' False"
  let ?w = "example_ec2 [[example_instance ''i-1'' stopped ''node'' [''sg-a'']]]"
  note c = is_in_state_bypasses_cache [of "StateName ''stopped''" ?h ?w]
  have t: "\<not> truthy (instance_info ?h)"
    by (simp add: truthy_def)
  have m: "list_ex (matches ''node'' [''stopped'']) (concat (reservations ?w))"
    by (simp add: matches_def example_ec2_def example_instance_def)
  have r: "is_in_state (StateName ''stopped'') (?h, ?w)
           = (Inr True, ?h, received (DescribeInstances ''node'' [''stopped'']) ?w)"
    using c m by (simp add: state_names_def)
  from c t have "snd (snd (instance_id (snd (is_in_state (StateName ''stopped'') (?h, ?w)))))
        = received (resolution_query (name ?h))
            (snd (snd (is_in_state (StateName ''stopped'') (?h, ?w))))"
    by blast
  with r have "snd (snd (instance_id (snd (is_in_state (StateName ''stopped'') (?h, ?w)))))
        = received (resolution_query ''node'') (received (DescribeInstances ''node'' [''stopped'']) ?w)"
    by simp
  then have "calls (snd (snd (instance_id (snd (is_in_state (StateName ''stopped'') (?h, ?w))))))
        = [DescribeInstances ''node'' [''stopped''], DescribeInstances ''node'' [''running'', ''pending'']]"
    by (simp add: received_def resolution_query_def example_ec2_def)
  with t r show ?thesis by simp
qed

lemma lazy_load_cases:
  "lazy_load_instance_info (self, w) = (Inr (), self', w') \<Longrightarrow> \<exists>d. instance_info self' = Some d"
  by (cases "truthy (instance_info self)")
     (auto simp: lazy_load_truthy lazy_load_falsy truthy_def split: list.splits option.splits)

lemma key_in_dict: "k \<in> fst ` set d \<longleftrightarrow> map_of d k \<noteq> None"
  by (simp add: map_of_eq_None_iff)

text \<open>
  C9. Once the snapshot is resolved, \<open>public_ip\<close> returns \<open>None\<close> without an error
  when the snapshot has no \<open>PublicIpAddress\<close> key, and the address when it has one;
  \<open>instance_id\<close>, \<open>private_ip\<close> and \<open>security_groups\<close> subscript the snapshot
  directly (\<open>InstanceId\<close>, \<open>PrivateIpAddress\<close>, the \<open>GroupId\<close> of every entry of
  \<open>SecurityGroups\<close>).
\<close>

theorem public_ip_absent_is_None:
  assumes "lazy_load_instance_info s = (Inr (), self', w')"
    and "instance_info self' = Some d"
  shows "(''PublicIpAddress'' \<notin> set (map fst d) \<longrightarrow> public_ip s = (Inr None, self', w'))
       \<and> (\<forall>a. map_of d ''PublicIpAddress'' = Some a \<longrightarrow> public_ip s = (Inr (Some a), self', w'))
       \<and> instance_id s = (getitem d ''InstanceId'', self', w')
       \<and> private_ip s = (getitem d ''PrivateIpAddress'', self', w')
       \<and> (\<forall>sgs. getitem d ''SecurityGroups'' = Inr (Dicts sgs) \<longrightarrow>
             security_groups s = (group_ids sgs, self', w'))"
  using assms
  by (auto simp: public_ip_def instance_id_def private_ip_def security_groups_def
      subscript_info_def getitem_def key_in_dict split: option.splits)

theorem public_ip_absent_is_None_witness:
  "lazy_load_instance_info
     (init ''node'' ''us-east-1'' False,
      example_ec2 [[example_instance ''i-1'' running ''node'' [''sg-a'']]])
   = (Inr (),
      (init ''node'' ''us-east-1'' False)
        \<lparr>instance_info :=
           Some [(''InstanceId'', Str ''i-1''), (''PrivateIpAddress'', Str ''10.0.0.1''),
                 (''SecurityGroups'', Dicts [[(''GroupId'', ''sg-a'')]])]\<rparr>,
      received (resolution_query ''node'')
        (example_ec2 [[example_instance ''i-1'' running ''node'' [''sg-a'']]]))
   \<and> fst (public_ip
        (init ''node'' ''us-east-1'' False,
         example_ec2 [[example_instance ''i-1'' running ''node'' [''sg-a'']]])) = Inr None
   \<and> fst (instance_id
        (init ''node'' ''us-east-1'' False,
         example_ec2 [[example_instance ''i-1'' running ''node'' [''sg-a'']]])) = Inr (Str ''i-1'')
   \<and> fst (private_ip
        (init ''node'' ''us-east-1'' False,
         example_ec2 [[example_instance ''i-1'' running ''node'' [''sg-a'']]]))
       = Inr (Str ''10.0.0.1'')
   \<and> fst (security_groups
        (init ''node'' ''us-east-1'' False,
         example_ec2 [[example_instance ''i-1'' running ''node'' [''sg-a'']]])) = Inr [''sg-a'']"
proof -
  let ?h = "init ''node'' ''us-east-1'' False"
  let ?w = "example_ec2 [[example_instance ''i-1'' running ''node'' [''sg-a'']]]"
  let ?d = "[(''InstanceId'', Str ''i-1''), (''PrivateIpAddress'', Str ''10.0.0.1''),
             (''SecurityGroups'', Dicts [[(''GroupId'', ''sg-a'')]])]"
  have l: "live ''node'' ?w = [example_instance ''i-1'' running ''node'' [''sg-a'']]"
    by (simp add: live_def example_ec2_def example_instance_def)
  have d: "describe_instance (example_instance ''i-1'' running ''node'' [''sg-a'']) = ?d"
    by (simp add: describe_instance_def example_instance_def)
  have load: "lazy_load_instance_info (?h, ?w)
              = (Inr (), ?h\<lparr>instance_info := Some ?d\<rparr>, received (resolution_query ''node'') ?w)"
    by (simp add: lazy_load_falsy truthy_def l d)
  have c: "instance_info (?h\<lparr>instance_info := Some ?d\<rparr>) = Some ?d"
    by simp
  show ?thesis
    using public_ip_absent_is_None [OF load c] load by (simp add: getitem_def)
qed

lemma validate_tags_reserved_key:
  "t \<in> set ts \<Longrightarrow> map_of t ''Key'' = Some ''Name'' \<Longrightarrow>
     \<exists>msg. validate_tags ts = Some (AssertionError msg)"
proof (induction ts)
  case Nil
  then show ?case by simp
next
  case (Cons u us)
  show ?case
  proof (cases "t = u")
    case True
    with Cons.prems show ?thesis
      by (simp add: key_in_dict)
  next
    case False
    with Cons show ?thesis by auto
  qed
qed

lemma validate_input_rejects:
  assumes "security_group_ids a = []
         \<or> (volume_type a = ''io1'' \<and> iops a = None)
         \<or> list_ex (\<lambda>t. map_of t ''Key'' = Some ''Name'') (caller_tags a)
         \<or> (case eia_type a of None \<Rightarrow> False | Some e \<Rightarrow> \<not> startswith e ''eia1'')"
  shows "\<exists>msg. validate_input a = Some (AssertionError msg)"
proof -
  have tags: "\<exists>msg. validate_tags ts = Some (AssertionError msg)"
    if "tags a = Some ts" "list_ex (\<lambda>t. map_of t ''Key'' = Some ''Name'') (caller_tags a)" for ts
  proof -
    from that obtain t where "t \<in> set ts" "map_of t ''Key'' = Some ''Name''"
      by (auto simp: caller_tags_def list_ex_iff)
    then show ?thesis by (rule validate_tags_reserved_key)
  qed
  have nonempty: "ts \<noteq> []"
    if "tags a = Some ts" "list_ex (\<lambda>t. map_of t ''Key'' = Some ''Name'') (caller_tags a)" for ts
    using that by (auto simp: caller_tags_def)
  have none: "\<not> list_ex (\<lambda>t. map_of t ''Key'' = Some ''Name'') (caller_tags a)" if "tags a = None"
    using that by (simp add: caller_tags_def)
  show ?thesis
    using assms tags nonempty none
    by (auto simp: validate_input_def split: option.splits)
qed

text \<open>
  C4. A call of \<open>launch\<close> with an empty list of security groups, or with volume type
  \<open>io1\<close> and no \<open>iops\<close>, or with a caller's tag whose \<open>Key\<close> is \<open>Name\<close>, or with an
  \<open>eia_type\<close> that does not start with \<open>eia1\<close>, raises an \<open>AssertionError\<close> and leaves
  the handle and the provider as they were: the provider's log has no new call,
  neither the query for a running or pending instance nor \<open>run_instances\<close>.
\<close>

theorem launch_validation_before_any_call:
  assumes "security_group_ids a = []
         \<or> (volume_type a = ''io1'' \<and> iops a = None)
         \<or> list_ex (\<lambda>t. map_of t ''Key'' = Some ''Name'') (caller_tags a)
         \<or> (case eia_type a of None \<Rightarrow> False | Some e \<Rightarrow> \<not> startswith e ''eia1'')"
  shows "\<exists>msg. launch a (self, w) = (Inl (AssertionError msg), self, w)"
proof -
  from validate_input_rejects [OF assms] obtain msg
    where "validate_input a = Some (AssertionError msg)" ..
  then have "launch a (self, w) = (Inl (AssertionError msg), self, w)"
    by (simp add: launch_def)
  then show ?thesis ..
qed

theorem launch_validation_before_any_call_witness:
  "launch (example_args\<lparr>security_group_ids := []\<rparr>)
     (init ''node'' ''us-east-1'' False, example_ec2 [])
   = (Inl (AssertionError ''security_group_ids must be a nonempty list''),
      init ''node'' ''us-east-1'' False, example_ec2 [])
 \<and> launch (example_args\<lparr>volume_type := ''io1'', iops := None\<rparr>)
     (init ''node'' ''us-east-1'' False, example_ec2 [])
   = (Inl (AssertionError []), init ''node'' ''us-east-1'' False, example_ec2 [])
 \<and> launch (example_args\<lparr>tags := Some [[(''Key'', ''Name''), (''Value'', ''x'')]]\<rparr>)
     (init ''node'' ''us-east-1'' False, example_ec2 [])
   = (Inl (AssertionError
        '''Name' tag cannot be included as a tag. It will be set according to the Name defined at instantiation''),
      init ''node'' ''us-east-1'' False, example_ec2 [])
 \<and> launch (example_args\<lparr>eia_type := Some ''large''\<rparr>)
     (init ''node'' ''us-east-1'' False, example_ec2 [])
   = (Inl (AssertionError ''eia_type must be in the form `eia1.large`''),
      init ''node'' ''us-east-1'' False, example_ec2 [])"
proof -
  let ?s = "(init ''node'' ''us-east-1'' False, example_ec2 [])"
  note v = launch_validation_before_any_call
  have "\<exists>msg. launch (example_args\<lparr>security_group_ids := []\<rparr>) ?s
          = (Inl (AssertionError msg), ?s)"
    by (rule v) simp
  moreover have "\<exists>msg. launch (example_args\<lparr>volume_type := ''io1'', iops := None\<rparr>) ?s
          = (Inl (AssertionError msg), ?s)"
    by (rule v) simp
  moreover have "\<exists>msg. launch (example_args\<lparr>tags := Some [[(''Key'', ''Name''), (''Value'', ''x'')]]\<rparr>) ?s
          = (Inl (AssertionError msg), ?s)"
    by (rule v) (simp add: caller_tags_def)
  moreover have "\<exists>msg. launch (example_args\<lparr>eia_type := Some ''large''\<rparr>) ?s
          = (Inl (AssertionError msg), ?s)"
    by (rule v) (simp add: startswith_def)
  ultimately show ?thesis
    by (simp add: launch_def validate_input_def example_args_def startswith_def)
qed

lemma client_eq: "client call (self, w) = (fst (call w), self, snd (call w))"
  by (simp add: client_def split: prod.splits)

lemma launch_valid:
  "validate_input a = None \<Longrightarrow>
   launch a (self, w) =
     (if live (name self) w \<noteq> [] then
        (Inl (duplicate (name self)), self, received (resolution_query (name self)) w)
      else
        client (run_instances (run_instances_request self a))
          (self, received (resolution_query (name self)) w))"
  by (simp add: launch_def is_running_or_pending_eq)

lemma calls_received [simp]: "calls (received c w) = calls w @ [c]"
  by (simp add: received_def)

lemma reservations_received [simp]: "reservations (received c w) = reservations w"
  by (simp add: received_def)

lemma calls_run_instances [simp]:
  "calls (snd (run_instances req w)) = calls w @ [RunInstances req]"
  by (simp add: run_instances_def Let_def split: prod.splits)

text \<open>
  C10. With volume type \<open>io1\<close> and \<open>iops\<close> equal to \<open>0\<close> the validation passes, when
  the other parameters are valid, since the assertion only asks for a value other
  than \<open>None\<close>; the EBS parameters built for the request nevertheless have no \<open>Iops\<close>
  entry, and \<open>run_instances\<close> is called with that request when no running or pending
  instance has the name.
\<close>

theorem io1_with_zero_iops:
  assumes "volume_type a = ''io1''" and "iops a = Some 0"
    and "validate_input (a\<lparr>iops := Some n\<rparr>) = None"
  shows "validate_input a = None
       \<and> Iops (ebs_params a) = None
       \<and> Iops (Ebs (run_instances_request self a)) = None
       \<and> (live (name self) w = [] \<longrightarrow>
            calls (snd (snd (launch a (self, w))))
              = calls w @ [resolution_query (name self),
                           RunInstances (run_instances_request self a)])"
proof -
  have v: "validate_input a = None"
    using assms by (simp add: validate_input_def split: if_splits)
  have e: "Iops (ebs_params a) = None"
    using assms by (simp add: ebs_params_def)
  have "calls (snd (snd (launch a (self, w))))
          = calls w @ [resolution_query (name self), RunInstances (run_instances_request self a)]"
    if "live (name self) w = []"
    using that by (simp add: launch_valid [OF v] client_eq)
  with v e show ?thesis
    by (simp add: run_instances_request_def)
qed

theorem io1_with_zero_iops_witness:
  "validate_input (example_args\<lparr>volume_type := ''io1'', iops := Some 0\<rparr>) = None
   \<and> Iops (ebs_params (example_args\<lparr>volume_type := ''io1'', iops := Some 0\<rparr>)) = None
   \<and> Iops (ebs_params (example_args\<lparr>volume_type := ''io1'', iops := Some 100\<rparr>)) = Some 100
   \<and> calls (snd (snd (launch (example_args\<lparr>volume_type := ''io1'', iops := Some 0\<rparr>)
        (init ''node'' ''us-east-1'' False, example_ec2 []))))
     = [DescribeInstances ''node'' [''running'', ''pending''],
        RunInstances (run_instances_request (init ''node'' ''us-east-1'' False)
          (example_args\<lparr>volume_type := ''io1'', iops := Some 0\<rparr>))]"
proof -
  let ?a = "example_args\<lparr>volume_type := ''io1'', iops := Some 0\<rparr>"
  have 1: "volume_type ?a = ''io1''" and 2: "iops ?a = Some 0"
    by simp_all
  have 3: "validate_input (?a\<lparr>iops := Some 100\<rparr>) = None"
    by (simp add: validate_input_def example_args_def)
  have 4: "live ''node'' (example_ec2 []) = []"
    by (simp add: live_def example_ec2_def)
  have 5: "calls (example_ec2 []) = []"
    by (simp add: example_ec2_def)
  have 6: "Iops (ebs_params (example_args\<lparr>volume_type := ''io1'', iops := Some 100\<rparr>)) = Some 100"
    by (simp add: ebs_params_def)
  show ?thesis
    using io1_with_zero_iops [OF 1 2 3, of "init ''node'' ''us-east-1'' False" "example_ec2 []"] 4 5 6
    by (simp add: resolution_query_def)
qed

lemma live_received [simp]: "live n (received c w) = live n w"
  by (simp add: live_def)

lemma tag_pair_Name: "tag_pair [(''Key'', ''Name''), (''Value'', n)] = (''Name'', n)"
  by (simp add: tag_pair_def)

lemma live_after_run_instances:
  assumes "run_instances (run_instances_request self a) w = (Inr resp, w1)"
  shows "live (name self) w1 \<noteq> []"
proof -
  obtain new_id new_private
    where al: "allocate w (length (concat (reservations w))) = (new_id, new_private)"
    by (cases "allocate w (length (concat (reservations w)))")
  let ?i = "\<lparr>inst_id = new_id, inst_state = pending,
             inst_tags = map tag_pair (Tags (run_instances_request self a)),
             inst_private = new_private, inst_public = None,
             inst_groups = SecurityGroupIds (run_instances_request self a)\<rparr>"
  from assms al have "reservations w1 = reservations w @ [[?i]]"
    by (auto simp: run_instances_def Let_def split: if_splits)
  moreover have "map_of (inst_tags ?i) ''Name'' = Some (name self)"
    by (simp add: run_instances_request_def all_tags_def tag_pair_Name)
  ultimately have "?i \<in> set (live (name self) w1)"
    by (simp add: live_def)
  then show ?thesis by auto
qed

lemma launch_returns:
  assumes "launch a (self, w) = (Inr resp, self1, w1)"
  shows "live (name self) w1 \<noteq> []"
proof -
  from assms have v: "validate_input a = None"
    by (auto simp: launch_def split: option.splits)
  from assms have "run_instances (run_instances_request self a)
                     (received (resolution_query (name self)) w) = (Inr resp, w1)"
    by (auto simp: launch_valid [OF v] client_eq split: if_splits intro: prod_eqI)
  then show ?thesis by (rule live_after_run_instances)
qed

text \<open>
  C2. When the parameters pass the validation and a running or pending instance
  already carries the handle's name, \<open>launch\<close> raises the duplicate error after its
  one query and sends no \<open>run_instances\<close> request. In particular, after a call of
  \<open>launch\<close> that returned, a second call for the same name, through this handle or
  another one, with parameters that pass the validation, raises the duplicate error.
\<close>

theorem launch_refuses_duplicate:
  "(validate_input a = None \<longrightarrow> live (name self) w \<noteq> [] \<longrightarrow>
      launch a (self, w)
        = (Inl (duplicate (name self)), self, received (resolution_query (name self)) w))
 \<and> (\<forall>resp self1 w1 a' self'.
      launch a (self, w) = (Inr resp, self1, w1) \<longrightarrow>
      validate_input a' = None \<longrightarrow> name self' = name self \<longrightarrow>
      launch a' (self', w1)
        = (Inl (duplicate (name self)), self', received (resolution_query (name self)) w1))"
  by (auto simp: launch_valid dest: launch_returns)

theorem launch_refuses_duplicate_witness:
  "validate_input example_args = None
 \<and> live ''node'' (example_ec2 []) = []
 \<and> fst (launch example_args (init ''node'' ''us-east-1'' False, example_ec2 []))
     = Inr [[(''InstanceId'', Str ''i-new''), (''PrivateIpAddress'', Str ''10.0.0.2''),
             (''SecurityGroups'', Dicts [[(''GroupId'', ''sg-a'')]])]]
 \<and> fst (launch example_args
        (snd (launch example_args (init ''node'' ''us-east-1'' False, example_ec2 []))))
     = Inl (duplicate ''node'')
 \<and> calls (snd (snd (launch example_args
        (snd (launch example_args (init ''node'' ''us-east-1'' False, example_ec2 []))))))
     = [DescribeInstances ''node'' [''running'', ''pending''],
        RunInstances (run_instances_request (init ''node'' ''us-east-1'' False) example_args),
        DescribeInstances ''node'' [''running'', ''pending'']]"
proof -
  let ?h = "init ''node'' ''us-east-1'' False"
  let ?w = "example_ec2 []"
  let ?i = "\<lparr>inst_id = ''i-new'', inst_state = pending,
             inst_tags = [(''Name'', ''node'')],
             inst_private = ''10.0.0.2'', inst_public = None, inst_groups = [''sg-a'']\<rparr>"
  let ?w1 = "\<lparr>reservations = [[?i]],
              calls = [DescribeInstances ''node'' [''running'', ''pending''],
                       RunInstances (run_instances_request ?h example_args)],
              allocate = (\<lambda>k. (''i-new'', ''10.0.0.2'')), wait_ok = (\<lambda>c. True)\<rparr>"
  have v: "validate_input example_args = None"
    by (simp add: validate_input_def example_args_def)
  have l: "live ''node'' ?w = []"
    by (simp add: live_def example_ec2_def)
  have req: "DryRun (run_instances_request ?h example_args) = False"
     "Tags (run_instances_request ?h example_args) = [[(''Key'', ''Name''), (''Value'', ''node'')]]"
     "SecurityGroupIds (run_instances_request ?h example_args) = [''sg-a'']"
    by (simp_all add: run_instances_request_def example_args_def all_tags_def)
  have first: "launch example_args (?h, ?w)
     = (Inr [[(''InstanceId'', Str ''i-new''), (''PrivateIpAddress'', Str ''10.0.0.2''),
             (''SecurityGroups'', Dicts [[(''GroupId'', ''sg-a'')]])]], ?h, ?w1)"
    by (simp add: launch_valid [OF v] live_def client_eq run_instances_def req tag_pair_Name
        describe_instance_def resolution_query_def received_def example_ec2_def)
  from launch_refuses_duplicate [of example_args ?h ?w] first v
  have second: "launch example_args (?h, ?w1)
     = (Inl (duplicate ''node''), ?h, received (resolution_query ''node'') ?w1)"
    by simp
  show ?thesis
    by (simp add: v l first second resolution_query_def)
qed

lemma truthy_simps [simp]: "\<not> truthy None" "truthy (Some d) \<longleftrightarrow> d \<noteq> []"
  by (simp_all add: truthy_def)

lemma example_ec2_simps [simp]:
  "reservations (example_ec2 rs) = rs" "calls (example_ec2 rs) = []"
  by (simp_all add: example_ec2_def)

lemma known_received [simp]: "known v (received c w) = known v w"
  by (simp add: known_def)

lemma known_update_instances:
  assumes "\<And>x. inst_id (f x) = inst_id x"
  shows "known v (update_instances P f w) = known v w"
proof -
  let ?g = "\<lambda>i. if P i then f i else i"
  have g: "has_id v (?g x) = has_id v x" for x
    by (simp add: has_id_def assms)
  have "concat (map (map ?g) (reservations w)) = map ?g (concat (reservations w))"
    by (simp add: map_concat)
  then have "list_ex (has_id v) (concat (map (map ?g) (reservations w)))
             = list_ex (has_id v) (concat (reservations w))"
    by (simp only: list_ex_iff set_map bex_simps g)
  then show ?thesis
    by (simp add: known_def update_instances_def)
qed

lemma calls_update_instances [simp]: "calls (update_instances P f w) = calls w"
  by (simp add: update_instances_def)

lemma reservations_update_instances [simp]:
  "reservations (update_instances P f w) = map (map (\<lambda>i. if P i then f i else i)) (reservations w)"
  by (simp add: update_instances_def)

lemma terminate_instances_returns:
  "terminate_instances [i] dry w = (Inr (), w2) \<longleftrightarrow>
     \<not> dry \<and> known i w
     \<and> w2 = update_instances (\<lambda>x. has_id i x \<and> inst_state x \<noteq> terminated)
               (\<lambda>x. x\<lparr>inst_state := shutting_down\<rparr>) (received (TerminateInstances [i] dry) w)"
  by (auto simp: terminate_instances_def Let_def)

lemma terminate_instances_raises:
  "terminate_instances ids dry w = (Inl e, w2) \<Longrightarrow> w2 = received (TerminateInstances ids dry) w"
  by (auto simp: terminate_instances_def Let_def split: if_splits)

lemma terminate_after_instance_id:
  "instance_id (self, w) = (Inr i, self1, w1) \<Longrightarrow>
   terminate dry (self, w) =
     and_then (client (terminate_instances [i] dry) (self1, w1))
       (\<lambda>_ s. client (delete_tags i [''Name'']) s)"
  by (simp add: terminate_def)

lemma terminate_unresolved:
  "instance_id (self, w) = (Inl e, s') \<Longrightarrow> terminate dry (self, w) = (Inl e, s')"
  by (simp add: terminate_def)

lemma instance_id_not_found:
  "\<not> truthy (instance_info self) \<Longrightarrow> live (name self) w = [] \<Longrightarrow>
   instance_id (self, w) = (Inl not_found, self, received (resolution_query (name self)) w)"
  by (simp add: instance_id_def lazy_load_falsy)

lemma instance_id_resolves:
  "\<not> truthy (instance_info self) \<Longrightarrow> live (name self) w = i # rest \<Longrightarrow>
   instance_id (self, w) =
     (Inr (Str (inst_id i)), self\<lparr>instance_info := Some (describe_instance i)\<rparr>,
      received (resolution_query (name self)) w)"
  by (simp add: instance_id_def lazy_load_falsy subscript_info_def getitem_def
      describe_instance_def)

text \<open>
  C3, as stated, fails for a dry run. The instance resolves, and \<open>terminate\<close> called
  with \<open>dry_run\<close> set sends the one \<open>terminate_instances\<close> request; the provider
  answers a dry run with an error, \<open>terminate\<close> raises it, and no \<open>delete_tags\<close> is
  sent: the instance keeps its \<open>Name\<close> tag.
\<close>

theorem terminate_dry_run_keeps_name_tag:
  "instance_id
     (init ''node'' ''us-east-1'' False,
      example_ec2 [[example_instance ''i-1'' running ''node'' [''sg-a'']]])
   = (Inr (Str ''i-1''),
      (init ''node'' ''us-east-1'' False)
        \<lparr>instance_info :=
           Some (describe_instance (example_instance ''i-1'' running ''node'' [''sg-a'']))\<rparr>,
      received (resolution_query ''node'')
        (example_ec2 [[example_instance ''i-1'' running ''node'' [''sg-a'']]]))
 \<and> fst (terminate True
       (init ''node'' ''us-east-1'' False,
        example_ec2 [[example_instance ''i-1'' running ''node'' [''sg-a'']]]))
     = Inl (ClientError ''DryRunOperation'')
 \<and> calls (snd (snd (terminate True
       (init ''node'' ''us-east-1'' False,
        example_ec2 [[example_instance ''i-1'' running ''node'' [''sg-a'']]]))))
     = [DescribeInstances ''node'' [''running'', ''pending''],
        TerminateInstances [Str ''i-1''] True]
 \<and> reservations (snd (snd (terminate True
       (init ''node'' ''us-east-1'' False,
        example_ec2 [[example_instance ''i-1'' running ''node'' [''sg-a'']]]))))
     = [[\<lparr>inst_id = ''i-1'', inst_state = running, inst_tags = [(''Name'', ''node'')],
          inst_private = ''10.0.0.1'', inst_public = None, inst_groups = [''sg-a'']\<rparr>]]"
proof -
  let ?h = "init ''node'' ''us-east-1'' False"
  let ?i = "example_instance ''i-1'' running ''node'' [''sg-a'']"
  let ?w = "example_ec2 [[?i]]"
  let ?h1 = "?h\<lparr>instance_info := Some (describe_instance ?i)\<rparr>"
  let ?w1 = "received (resolution_query ''node'') ?w"
  have l: "live ''node'' ?w = [?i]"
    by (simp add: live_def example_instance_def)
  have "instance_id (?h, ?w)
        = (Inr (Str (inst_id ?i)), ?h\<lparr>instance_info := Some (describe_instance ?i)\<rparr>,
           received (resolution_query (name ?h)) ?w)"
    by (rule instance_id_resolves [where rest = "[]"]) (simp_all add: l)
  then have id: "instance_id (?h, ?w) = (Inr (Str ''i-1''), ?h1, ?w1)"
    by (simp add: example_instance_def)
  have dry: "terminate_instances [Str ''i-1''] True ?w1
             = (Inl (ClientError ''DryRunOperation''),
                received (TerminateInstances [Str ''i-1''] True) ?w1)"
    by (simp add: terminate_instances_def)
  have t: "terminate True (?h, ?w)
           = (Inl (ClientError ''DryRunOperation''), ?h1,
              received (TerminateInstances [Str ''i-1''] True) ?w1)"
    by (simp add: terminate_after_instance_id [OF id] client_eq dry)
  show ?thesis
    unfolding t id by (simp add: resolution_query_def example_instance_def)
qed

text \<open>
  C3, amended. \<open>terminate\<close> first resolves the instance identifier and fails as the
  resolution fails: with the not-found error on a handle without a loaded snapshot
  when no running or pending instance has the name. When the identifier \<open>i\<close> is
  resolved it sends one \<open>terminate_instances\<close> request for \<open>i\<close>. When the provider
  answers that request without an error, \<open>terminate\<close> next sends \<open>delete_tags\<close> for
  the key \<open>Name\<close> of \<open>i\<close> and returns: these two calls, in this order, are all it
  sends, no wait among them, and the instance is left shutting down, without its
  \<open>Name\<close> tag. When the provider answers the request with an error, as it does for a
  dry run, the error is raised, nothing more is sent and the tag stays.
\<close>

theorem terminate_then_delete_name_tag:
  "(\<not> truthy (instance_info self) \<longrightarrow> live (name self) w = [] \<longrightarrow>
      terminate dry (self, w)
        = (Inl not_found, self, received (resolution_query (name self)) w))
 \<and> (\<forall>e s'. instance_id (self, w) = (Inl e, s') \<longrightarrow> terminate dry (self, w) = (Inl e, s'))
 \<and> (\<forall>i self1 w1 w2.
      instance_id (self, w) = (Inr i, self1, w1) \<longrightarrow>
      terminate_instances [i] dry w1 = (Inr (), w2) \<longrightarrow>
      (\<exists>w3. terminate dry (self, w) = (Inr (), self1, w3)
          \<and> calls w3 = calls w1 @ [TerminateInstances [i] dry, DeleteTags i [''Name'']]
          \<and> reservations w3
              = map (map (\<lambda>x. if has_id i x
                               then x\<lparr>inst_state := (if inst_state x = terminated then terminated
                                                      else shutting_down),
                                      inst_tags := filter (\<lambda>(k, _). k \<noteq> ''Name'') (inst_tags x)\<rparr>
                               else x))
                  (reservations w1)))
 \<and> (\<forall>i self1 w1 e w2.
      instance_id (self, w) = (Inr i, self1, w1) \<longrightarrow>
      terminate_instances [i] dry w1 = (Inl e, w2) \<longrightarrow>
      terminate dry (self, w) = (Inl e, self1, w2)
      \<and> calls w2 = calls w1 @ [TerminateInstances [i] dry]
      \<and> reservations w2 = reservations w1)"
proof (intro conjI allI impI)
  assume "\<not> truthy (instance_info self)" "live (name self) w = []"
  then show "terminate dry (self, w)
        = (Inl not_found, self, received (resolution_query (name self)) w)"
    by (simp add: terminate_unresolved instance_id_not_found)
next
  fix e s'
  assume "instance_id (self, w) = (Inl e, s')"
  then show "terminate dry (self, w) = (Inl e, s')"
    by (rule terminate_unresolved)
next
  fix i self1 w1 w2
  assume id: "instance_id (self, w) = (Inr i, self1, w1)"
    and t: "terminate_instances [i] dry w1 = (Inr (), w2)"
  from t have nd: "\<not> dry" and k: "known i w1"
    and w2: "w2 = update_instances (\<lambda>x. has_id i x \<and> inst_state x \<noteq> terminated)
               (\<lambda>x. x\<lparr>inst_state := shutting_down\<rparr>) (received (TerminateInstances [i] dry) w1)"
    by (simp_all add: terminate_instances_returns)
  have k2: "known i w2"
    unfolding w2 using k by (simp add: known_update_instances)
  let ?w3 = "update_instances (has_id i)
               (\<lambda>x. x\<lparr>inst_tags := filter (\<lambda>(k, _). k \<notin> set [''Name'']) (inst_tags x)\<rparr>)
               (received (DeleteTags i [''Name'']) w2)"
  have d: "delete_tags i [''Name''] w2 = (Inr (), ?w3)"
    using k2 by (simp add: delete_tags_def Let_def)
  have r: "terminate dry (self, w) = (Inr (), self1, ?w3)"
    by (simp add: terminate_after_instance_id [OF id] client_eq t d)
  have c: "calls ?w3 = calls w1 @ [TerminateInstances [i] dry, DeleteTags i [''Name'']]"
    by (simp add: w2)
  have rs: "reservations ?w3
              = map (map (\<lambda>x. if has_id i x
                               then x\<lparr>inst_state := (if inst_state x = terminated then terminated
                                                      else shutting_down),
                                      inst_tags := filter (\<lambda>(k, _). k \<noteq> ''Name'') (inst_tags x)\<rparr>
                               else x))
                  (reservations w1)"
    by (auto simp: w2 has_id_def)
  from r c rs
  show "\<exists>w3. terminate dry (self, w) = (Inr (), self1, w3)
          \<and> calls w3 = calls w1 @ [TerminateInstances [i] dry, DeleteTags i [''Name'']]
          \<and> reservations w3
              = map (map (\<lambda>x. if has_id i x
                               then x\<lparr>inst_state := (if inst_state x = terminated then terminated
                                                      else shutting_down),
                                      inst_tags := filter (\<lambda>(k, _). k \<noteq> ''Name'') (inst_tags x)\<rparr>
                               else x))
                  (reservations w1)"
    by blast
next
  fix i self1 w1 e w2
  assume id: "instance_id (self, w) = (Inr i, self1, w1)"
    and t: "terminate_instances [i] dry w1 = (Inl e, w2)"
  show "terminate dry (self, w) = (Inl e, self1, w2)"
    by (simp add: terminate_after_instance_id [OF id] client_eq t)
  from terminate_instances_raises [OF t]
  show "calls w2 = calls w1 @ [TerminateInstances [i] dry]" "reservations w2 = reservations w1"
    by simp_all
qed


theorem terminate_then_delete_name_tag_witness:
  "fst (terminate False (init ''node'' ''us-east-1'' False, example_ec2 [])) = Inl not_found
 \<and> instance_id
       (init ''node'' ''us-east-1'' False,
        example_ec2 [[example_instance ''i-1'' running ''node'' [''sg-a'']]])
     = (Inr (Str ''i-1''),
        (init ''node'' ''us-east-1'' False)
          \<lparr>instance_info :=
             Some (describe_instance (example_instance ''i-1'' running ''node'' [''sg-a'']))\<rparr>,
        received (resolution_query ''node'')
          (example_ec2 [[example_instance ''i-1'' running ''node'' [''sg-a'']]]))
 \<and> fst (terminate False
       (init ''node'' ''us-east-1'' False,
        example_ec2 [[example_instance ''i-1'' running ''node'' [''sg-a'']]])) = Inr ()
 \<and> calls (snd (snd (terminate False
       (init ''node'' ''us-east-1'' False,
        example_ec2 [[example_instance ''i-1'' running ''node'' [''sg-a'']]]))))
     = [DescribeInstances ''node'' [''running'', ''pending''],
        TerminateInstances [Str ''i-1''] False, DeleteTags (Str ''i-1'') [''Name'']]
 \<and> reservations (snd (snd (terminate False
       (init ''node'' ''us-east-1'' False,
        example_ec2 [[example_instance ''i-1'' running ''node'' [''sg-a'']]]))))
     = [[\<lparr>inst_id = ''i-1'', inst_state = shutting_down, inst_tags = [],
          inst_private = ''10.0.0.1'', inst_public = None, inst_groups = [''sg-a'']\<rparr>]]
 \<and> fst (terminate True
       (init ''node'' ''us-east-1'' False,
        example_ec2 [[example_instance ''i-1'' running ''node'' [''sg-a'']]]))
     = Inl (ClientError ''DryRunOperation'')
 \<and> calls (snd (snd (terminate True
       (init ''node'' ''us-east-1'' False,
        example_ec2 [[example_instance ''i-1'' running ''node'' [''sg-a'']]]))))
     = [DescribeInstances ''node'' [''running'', ''pending''],
        TerminateInstances [Str ''i-1''] True]"
proof -
  let ?h = "init ''node'' ''us-east-1'' False"
  let ?i = "example_instance ''i-1'' running ''node'' [''sg-a'']"
  let ?w = "example_ec2 [[?i]]"
  let ?h1 = "?h\<lparr>instance_info := Some (describe_instance ?i)\<rparr>"
  let ?w1 = "received (resolution_query ''node'') ?w"
  have t: "\<not> truthy (instance_info ?h)"
    by (simp add: truthy_def)
  have e: "live (name ?h) (example_ec2 []) = []"
    by (simp add: live_def example_ec2_def)
  have l: "live ''node'' ?w = [?i]"
    by (simp add: live_def example_ec2_def example_instance_def)
  have "instance_id (?h, ?w)
        = (Inr (Str (inst_id ?i)), ?h\<lparr>instance_info := Some (describe_instance ?i)\<rparr>,
           received (resolution_query (name ?h)) ?w)"
    by (rule instance_id_resolves) (simp_all add: t l)
  then have id: "instance_id (?h, ?w) = (Inr (Str ''i-1''), ?h1, ?w1)"
    by (simp add: example_instance_def)
  have k: "known (Str ''i-1'') ?w1"
    by (simp add: known_def has_id_def example_ec2_def example_instance_def)
  obtain w2 where real: "terminate_instances [Str ''i-1''] False ?w1 = (Inr (), w2)"
    using k by (simp add: terminate_instances_returns)
  have dry: "terminate_instances [Str ''i-1''] True ?w1
             = (Inl (ClientError ''DryRunOperation''), received (TerminateInstances [Str ''i-1''] True) ?w1)"
    by (simp add: terminate_instances_def)
  note c = terminate_then_delete_name_tag [of ?h]
  from c [of "example_ec2 []" False] t e
  have 1: "fst (terminate False (?h, example_ec2 [])) = Inl not_found"
    by simp
  from c [of ?w False] id real
  obtain w3 where 2: "terminate False (?h, ?w) = (Inr (), ?h1, w3)"
    and 3: "calls w3 = calls ?w1 @ [TerminateInstances [Str ''i-1''] False, DeleteTags (Str ''i-1'') [''Name'']]"
    and 4: "reservations w3
              = map (map (\<lambda>x. if has_id (Str ''i-1'') x
                               then x\<lparr>inst_state := (if inst_state x = terminated then terminated
                                                      else shutting_down),
                                      inst_tags := filter (\<lambda>(k, _). k \<noteq> ''Name'') (inst_tags x)\<rparr>
                               else x))
                  (reservations ?w1)"
    by blast
  from c [of ?w True] id dry
  have 5: "terminate True (?h, ?w)
           = (Inl (ClientError ''DryRunOperation''), ?h1,
              received (TerminateInstances [Str ''i-1''] True) ?w1)"
    by blast
  have 7: "reservations w3
     = [[\<lparr>inst_id = ''i-1'', inst_state = shutting_down, inst_tags = [],
          inst_private = ''10.0.0.1'', inst_public = None, inst_groups = [''sg-a'']\<rparr>]]"
    unfolding 4 by (simp add: has_id_def example_instance_def)
  show ?thesis
    unfolding 2 5 id by (simp add: 1 3 7 resolution_query_def)
qed

lemma group_ids_described: "group_ids (map (\<lambda>g. [(''GroupId'', g)]) gs) = Inr gs"
  by (induction gs) (simp_all add: getitem_def)

lemma describe_instance_nonempty [simp]: "describe_instance i \<noteq> []"
  by (simp add: describe_instance_def)

lemma accessors_resolve:
  assumes "\<not> truthy (instance_info self)" and "live (name self) w = i # rest"
  shows "private_ip (self, w) =
           (Inr (Str (inst_private i)), self\<lparr>instance_info := Some (describe_instance i)\<rparr>,
            received (resolution_query (name self)) w)"
    and "public_ip (self, w) =
           (Inr (map_option Str (inst_public i)),
            self\<lparr>instance_info := Some (describe_instance i)\<rparr>,
            received (resolution_query (name self)) w)"
    and "security_groups (self, w) =
           (Inr (inst_groups i), self\<lparr>instance_info := Some (describe_instance i)\<rparr>,
            received (resolution_query (name self)) w)"
  using assms
  by (simp_all add: private_ip_def public_ip_def security_groups_def lazy_load_falsy
      subscript_info_def getitem_def describe_instance_def group_ids_described
      split: option.splits)

lemma accessors_cached:
  assumes "instance_info self = Some d" and "d \<noteq> []"
  shows "instance_id (self, w) = (getitem d ''InstanceId'', self, w)"
    and "private_ip (self, w) = (getitem d ''PrivateIpAddress'', self, w)"
    and "public_ip (self, w) =
           (Inr (map_of d ''PublicIpAddress''), self, w)"
    and "security_groups (self, w) =
           (case getitem d ''SecurityGroups'' of
              Inl e \<Rightarrow> Inl e
            | Inr (Dicts sgs) \<Rightarrow> group_ids sgs
            | Inr (Str cs) \<Rightarrow> (if cs = [] then Inr [] else Inl TypeError),
            self, w)"
  using assms
  by (auto simp: instance_id_def private_ip_def public_ip_def security_groups_def
      lazy_load_truthy subscript_info_def getitem_def key_in_dict split: option.splits)

text \<open>Preservation of a property of the handle by every operation that preserves it
  when loading the snapshot.\<close>

lemma and_then_handle:
  assumes "P (fst (snd r))"
    and "\<And>x s'. P (fst s') \<Longrightarrow> P (fst (snd (f x s')))"
  shows "P (fst (snd (and_then r f)))"
  using assms by (cases r; cases "fst r") (auto simp: and_then_def)

lemma client_handle [simp]: "fst (snd (client call s)) = fst s"
  by (cases s) (simp add: client_eq)

lemma query_handle [simp]: "fst (snd (query_for_instance_info s)) = fst s"
  by (cases s) (simp add: query_for_instance_info_eq)

lemma is_in_state_handle [simp]: "fst (snd (is_in_state states s)) = fst s"
  by (cases s) (simp add: is_in_state_eq)

lemma is_running_or_pending_handle [simp]: "fst (snd (is_running_or_pending s)) = fst s"
  by (simp add: is_running_or_pending_def)

lemma accessors_handle:
  assumes "\<And>s. P (fst s) \<Longrightarrow> P (fst (snd (lazy_load_instance_info s)))" and "P (fst s)"
  shows "P (fst (snd (instance_id s)))" and "P (fst (snd (private_ip s)))"
    and "P (fst (snd (public_ip s)))" and "P (fst (snd (security_groups s)))"
proof -
  have load: "P (fst (snd (lazy_load_instance_info s)))"
    using assms(2) by (rule assms(1))
  show "P (fst (snd (instance_id s)))"
    unfolding instance_id_def by (rule and_then_handle [where P = P]) (simp_all add: load)
  show "P (fst (snd (private_ip s)))"
    unfolding private_ip_def by (rule and_then_handle [where P = P]) (simp_all add: load)
  show "P (fst (snd (public_ip s)))"
    unfolding public_ip_def by (rule and_then_handle [where P = P]) (simp_all add: load)
  show "P (fst (snd (security_groups s)))"
    unfolding security_groups_def by (rule and_then_handle [where P = P]) (simp_all add: load)
qed

lemma detach_security_group_handle:
  assumes "\<And>s. P (fst s) \<Longrightarrow> P (fst (snd (lazy_load_instance_info s)))" and "P (fst s)"
  shows "P (fst (snd (detach_security_group sg_id s)))"
proof -
  have modify: "P (fst (snd (and_then (instance_id s')
                   (\<lambda>i s. client (modify_instance_attribute i gs) s))))"
    if "P (fst s')" for s' gs
    by (rule and_then_handle [where P = P])
       (simp_all add: accessors_handle(1) [where P = P] assms(1) that)
  have groups: "P (fst (snd (and_then (security_groups s')
                   (\<lambda>sgs s. let new_sgs = filter (\<lambda>sg. sg \<noteq> sg_id) sgs in
                             and_then (instance_id s)
                               (\<lambda>i s. client (modify_instance_attribute i new_sgs) s)))))"
    if "P (fst s')" for s'
    by (rule and_then_handle [where P = P])
       (use accessors_handle(4) [where P = P, OF assms(1) that] modify in simp_all)
  show ?thesis
    unfolding detach_security_group_def
    by (rule and_then_handle [where P = P]) (use assms(2) groups in simp_all)
qed

lemma waits_handle:
  assumes "\<And>s. P (fst s) \<Longrightarrow> P (fst (snd (lazy_load_instance_info s)))" and "P (fst s)"
  shows "P (fst (snd (wait_for_instance_to_be_running s)))"
    and "P (fst (snd (wait_for_instance_to_be_status_ok s)))"
    and "P (fst (snd (wait_for_instance_to_be_terminated s)))"
proof -
  show "P (fst (snd (wait_for_instance_to_be_running s)))"
    by (simp add: wait_for_instance_to_be_running_def assms(2))
  show "P (fst (snd (wait_for_instance_to_be_status_ok s)))"
    unfolding wait_for_instance_to_be_status_ok_def
    by (rule and_then_handle [where P = P])
       (simp_all add: accessors_handle(1) [where P = P] assms)
  show "P (fst (snd (wait_for_instance_to_be_terminated s)))"
    unfolding wait_for_instance_to_be_terminated_def
    by (rule and_then_handle [where P = P])
       (simp_all add: accessors_handle(1) [where P = P] assms)
qed

lemma launch_handle [simp]: "fst (snd (launch a s)) = fst s"
proof (cases "validate_input a")
  case None
  have "fst (snd (and_then (is_running_or_pending s)
          (\<lambda>b s. if b then (Inl (duplicate (name (fst s))), s)
                  else client (run_instances (run_instances_request (fst s) a)) s))) = fst s"
    by (rule and_then_handle [where P = "\<lambda>h. h = fst s"]) simp_all
  with None show ?thesis by (simp add: launch_def)
next
  case (Some e)
  then show ?thesis by (simp add: launch_def)
qed

lemma terminate_handle:
  assumes "\<And>s. P (fst s) \<Longrightarrow> P (fst (snd (lazy_load_instance_info s)))" and "P (fst s)"
  shows "P (fst (snd (terminate dry s)))"
proof -
  have untag: "P (fst (snd (and_then (client (terminate_instances [i] dry) s')
                  (\<lambda>_ s. client (delete_tags i [''Name'']) s))))"
    if "P (fst s')" for i s'
    by (rule and_then_handle [where P = P]) (simp_all add: that)
  show ?thesis
    unfolding terminate_def
    by (rule and_then_handle [where P = P])
       (use accessors_handle(1) [where P = P, OF assms] untag in simp_all)
qed

lemma perform_handle:
  assumes "\<And>s. P (fst s) \<Longrightarrow> P (fst (snd (lazy_load_instance_info s)))" and "P (fst s)"
  shows "P (fst (perform op s))"
proof (cases op)
  case (Detach_security_group sg_id)
  then show ?thesis
    using detach_security_group_handle [where P = P, OF assms] by simp
next
  case (Terminate dry)
  then show ?thesis
    using terminate_handle [where P = P, OF assms] by simp
qed (simp_all add: accessors_handle [where P = P, OF assms] waits_handle [where P = P, OF assms]
      assms(2))

lemma lazy_load_keeps_loaded:
  "truthy (instance_info self) \<Longrightarrow> fst s = self \<Longrightarrow>
     fst (snd (lazy_load_instance_info s)) = self"
  by (cases s) (simp add: lazy_load_truthy)

lemma lazy_load_never_empty:
  "instance_info (fst s) \<noteq> Some [] \<Longrightarrow>
     instance_info (fst (snd (lazy_load_instance_info s))) \<noteq> Some []"
  by (cases s; cases "truthy (instance_info (fst s))")
     (auto simp: lazy_load_truthy lazy_load_falsy split: list.splits)

lemma perform_keeps_loaded:
  assumes "truthy (instance_info self)"
  shows "fst (perform op (self, w)) = self"
  by (rule perform_handle [where P = "\<lambda>h. h = self" and s = "(self, w)", simplified])
     (simp add: lazy_load_keeps_loaded [OF assms])

lemma run_keeps_loaded:
  "truthy (instance_info (fst s)) \<Longrightarrow> fst (run ops s) = fst s"
proof (induction ops arbitrary: s)
  case Nil
  show ?case by (simp add: run_def)
next
  case (Cons op ops)
  have "fst (perform op s) = fst s"
    using perform_keeps_loaded [OF Cons.prems, of op "snd s"] by simp
  with Cons show ?case by (simp add: run_def)
qed

lemma run_never_empty:
  "instance_info (fst s) \<noteq> Some [] \<Longrightarrow> instance_info (fst (run ops s)) \<noteq> Some []"
proof (induction ops arbitrary: s)
  case Nil
  then show ?case by (simp add: run_def)
next
  case (Cons op ops)
  have "instance_info (fst (perform op s)) \<noteq> Some []"
    by (rule perform_handle [where P = "\<lambda>h. instance_info h \<noteq> Some []"])
       (simp_all add: lazy_load_never_empty Cons.prems)
  with Cons.IH show ?case by (simp add: run_def)
qed

lemma run_append: "run (ops @ ops') s = run ops' (run ops s)"
  by (simp add: run_def)

text \<open>
  C6. The snapshot is loaded at most once in the life of a handle. On a handle without
  a loaded snapshot, an accessor that finds a running or pending instance of the name
  sends the one resolution query and stores the description the query returns. On a
  handle with a loaded snapshot every accessor answers from the snapshot and leaves
  the handle and the provider untouched, so that no query is sent. No operation of a
  handle with a loaded snapshot changes the handle, whatever the provider's state; and
  from a newly made handle, whatever operations and changes of the provider's state
  follow one another, a snapshot once held is held unchanged ever after.
\<close>

theorem snapshot_loaded_at_most_once:
  "(\<forall>i rest. \<not> truthy (instance_info self) \<longrightarrow> live (name self) w = i # rest \<longrightarrow>
      query_for_instance_info (self, w)
        = (Inr (Some (describe_instance i)), self, received (resolution_query (name self)) w)
    \<and> instance_id (self, w)
        = (Inr (Str (inst_id i)), self\<lparr>instance_info := Some (describe_instance i)\<rparr>,
           received (resolution_query (name self)) w)
    \<and> private_ip (self, w)
        = (Inr (Str (inst_private i)), self\<lparr>instance_info := Some (describe_instance i)\<rparr>,
           received (resolution_query (name self)) w)
    \<and> public_ip (self, w)
        = (Inr (map_option Str (inst_public i)),
           self\<lparr>instance_info := Some (describe_instance i)\<rparr>,
           received (resolution_query (name self)) w)
    \<and> security_groups (self, w)
        = (Inr (inst_groups i), self\<lparr>instance_info := Some (describe_instance i)\<rparr>,
           received (resolution_query (name self)) w))
 \<and> (\<forall>d. instance_info self = Some d \<longrightarrow> d \<noteq> [] \<longrightarrow>
      instance_id (self, w) = (getitem d ''InstanceId'', self, w)
    \<and> private_ip (self, w) = (getitem d ''PrivateIpAddress'', self, w)
    \<and> public_ip (self, w) = (Inr (map_of d ''PublicIpAddress''), self, w)
    \<and> security_groups (self, w)
        = (case getitem d ''SecurityGroups'' of
             Inl e \<Rightarrow> Inl e
           | Inr (Dicts sgs) \<Rightarrow> group_ids sgs
           | Inr (Str cs) \<Rightarrow> (if cs = [] then Inr [] else Inl TypeError),
           self, w))
 \<and> (\<forall>op. truthy (instance_info self) \<longrightarrow> fst (perform op (self, w)) = self)
 \<and> (\<forall>n r v w0 ops ops' d.
      instance_info (fst (run ops (init n r v, w0))) = Some d \<longrightarrow>
      instance_info (fst (run (ops @ ops') (init n r v, w0))) = Some d)"
proof (intro conjI allI impI)
  fix n r v w0 ops ops' d
  assume d: "instance_info (fst (run ops (init n r v, w0))) = Some d"
  have "instance_info (fst (run ops (init n r v, w0))) \<noteq> Some []"
    by (rule run_never_empty) simp
  with d have "truthy (instance_info (fst (run ops (init n r v, w0))))"
    by auto
  then have "fst (run ops' (run ops (init n r v, w0))) = fst (run ops (init n r v, w0))"
    by (rule run_keeps_loaded)
  with d show "instance_info (fst (run (ops @ ops') (init n r v, w0))) = Some d"
    by (simp add: run_append)
qed (simp_all add: query_for_instance_info_eq instance_id_resolves accessors_resolve
      accessors_cached perform_keeps_loaded)


theorem snapshot_loaded_at_most_once_witness:
  "instance_id
     (init ''node'' ''us-east-1'' False,
      example_ec2 [[example_instance ''i-1'' running ''node'' [''sg-a'']]])
   = (Inr (Str ''i-1''),
      (init ''node'' ''us-east-1'' False)
        \<lparr>instance_info :=
           Some (describe_instance (example_instance ''i-1'' running ''node'' [''sg-a'']))\<rparr>,
      received (resolution_query ''node'')
        (example_ec2 [[example_instance ''i-1'' running ''node'' [''sg-a'']]]))
 \<and> private_ip
     ((init ''node'' ''us-east-1'' False)
        \<lparr>instance_info :=
           Some (describe_instance (example_instance ''i-1'' running ''node'' [''sg-a'']))\<rparr>,
      example_ec2 [])
   = (Inr (Str ''10.0.0.1''),
      (init ''node'' ''us-east-1'' False)
        \<lparr>instance_info :=
           Some (describe_instance (example_instance ''i-1'' running ''node'' [''sg-a'']))\<rparr>,
      example_ec2 [])
 \<and> fst (perform (Terminate False)
       ((init ''node'' ''us-east-1'' False)
          \<lparr>instance_info :=
             Some (describe_instance (example_instance ''i-1'' running ''node'' [''sg-a'']))\<rparr>,
        example_ec2 []))
   = (init ''node'' ''us-east-1'' False)
        \<lparr>instance_info :=
           Some (describe_instance (example_instance ''i-1'' running ''node'' [''sg-a'']))\<rparr>
 \<and> instance_info (fst (run ([Instance_id] @ [Environment (\<lambda>_. example_ec2 []), Private_ip])
       (init ''node'' ''us-east-1'' False,
        example_ec2 [[example_instance ''i-1'' running ''node'' [''sg-a'']]])))
   = Some (describe_instance (example_instance ''i-1'' running ''node'' [''sg-a'']))"
proof -
  let ?h = "init ''node'' ''us-east-1'' False"
  let ?i = "example_instance ''i-1'' running ''node'' [''sg-a'']"
  let ?w = "example_ec2 [[?i]]"
  let ?h1 = "?h\<lparr>instance_info := Some (describe_instance ?i)\<rparr>"
  note c = snapshot_loaded_at_most_once
  have t: "\<not> truthy (instance_info ?h)"
    by simp
  have l: "live (name ?h) ?w = [?i]"
    by (simp add: live_def example_instance_def)
  from c [of ?h ?w] t l
  have "instance_id (?h, ?w)
        = (Inr (Str (inst_id ?i)), ?h1, received (resolution_query (name ?h)) ?w)"
    by blast
  then have 1: "instance_id (?h, ?w) = (Inr (Str ''i-1''), ?h1, received (resolution_query ''node'') ?w)"
    by (simp add: example_instance_def)
  have d: "instance_info ?h1 = Some (describe_instance ?i)" "describe_instance ?i \<noteq> []"
    by simp_all
  from c [of ?h1 "example_ec2 []"] d
  have "private_ip (?h1, example_ec2 [])
        = (getitem (describe_instance ?i) ''PrivateIpAddress'', ?h1, example_ec2 [])"
    by blast
  then have 2: "private_ip (?h1, example_ec2 []) = (Inr (Str ''10.0.0.1''), ?h1, example_ec2 [])"
    by (simp add: getitem_def describe_instance_def example_instance_def)
  have "truthy (instance_info ?h1)"
    by simp
  with c [of ?h1 "example_ec2 []"]
  have 3: "fst (perform (Terminate False) (?h1, example_ec2 [])) = ?h1"
    by blast
  have "instance_info (fst (run [Instance_id] (?h, ?w))) = Some (describe_instance ?i)"
    by (simp add: run_def 1)
  with c [of ?h ?w]
  have 4: "instance_info (fst (run ([Instance_id] @ [Environment (\<lambda>_. example_ec2 []), Private_ip])
             (?h, ?w))) = Some (describe_instance ?i)"
    by blast
  from 1 2 3 4 show ?thesis
    by blast
qed

lemma live_known:
  "live n w = i # rest \<Longrightarrow> known (Str (inst_id i)) w"
proof -
  assume "live n w = i # rest"
  then have "i \<in> set (live n w)" by simp
  then have "i \<in> set (concat (reservations w))" by (simp add: live_def)
  then show ?thesis
    unfolding known_def list_ex_iff has_id_def by blast
qed

lemma modify_instance_attribute_eq:
  "modify_instance_attribute v gs w =
     (if known v w
      then (Inr (), update_instances (has_id v) (\<lambda>i. i\<lparr>inst_groups := gs\<rparr>)
                      (received (ModifyInstanceAttribute v gs) w))
      else (Inl (ClientError ''InvalidInstanceID.NotFound''),
            received (ModifyInstanceAttribute v gs) w))"
  by (simp add: modify_instance_attribute_def Let_def)

lemma detach_security_group_not_live:
  "live (name self) w = [] \<Longrightarrow>
   detach_security_group sg_id (self, w)
     = (Inl invalid_operation, self, received (resolution_query (name self)) w)"
  by (simp add: detach_security_group_def is_running_or_pending_eq)

lemma detach_security_group_unloaded:
  assumes "\<not> truthy (instance_info self)" and "live (name self) w = i # rest"
  shows "detach_security_group sg_id (self, w)
     = (Inr (), self\<lparr>instance_info := Some (describe_instance i)\<rparr>,
        update_instances (has_id (Str (inst_id i)))
          (\<lambda>x. x\<lparr>inst_groups := filter (\<lambda>sg. sg \<noteq> sg_id) (inst_groups i)\<rparr>)
          (received (ModifyInstanceAttribute (Str (inst_id i))
                       (filter (\<lambda>sg. sg \<noteq> sg_id) (inst_groups i)))
             (received (resolution_query (name self))
                (received (resolution_query (name self)) w))))"
proof -
  let ?q = "resolution_query (name self)"
  let ?self1 = "self\<lparr>instance_info := Some (describe_instance i)\<rparr>"
  have l: "live (name self) (received ?q w) = i # rest"
    using assms(2) by simp
  have sg: "security_groups (self, received ?q w)
            = (Inr (inst_groups i), ?self1, received ?q (received ?q w))"
    using assms(1) l by (rule accessors_resolve(3))
  have id: "instance_id (?self1, received ?q (received ?q w))
            = (Inr (Str (inst_id i)), ?self1, received ?q (received ?q w))"
    by (simp add: accessors_cached(1) [where d = "describe_instance i"] getitem_def
        describe_instance_def)
  have k: "known (Str (inst_id i)) w"
    using assms(2) by (rule live_known)
  show ?thesis
    using assms(2)
    by (simp add: detach_security_group_def is_running_or_pending_eq sg id client_eq
        modify_instance_attribute_eq k)
qed

lemma detach_security_group_loaded:
  assumes "instance_info self = Some d" and "d \<noteq> []" and "live (name self) w \<noteq> []"
    and "security_groups (self, received (resolution_query (name self)) w)
           = (Inr sgs, self, received (resolution_query (name self)) w)"
    and "getitem d ''InstanceId'' = Inr i"
  shows "detach_security_group sg_id (self, w)
     = (fst (modify_instance_attribute i (filter (\<lambda>sg. sg \<noteq> sg_id) sgs)
               (received (resolution_query (name self)) w)),
        self,
        snd (modify_instance_attribute i (filter (\<lambda>sg. sg \<noteq> sg_id) sgs)
               (received (resolution_query (name self)) w)))"
  using assms
  by (simp add: detach_security_group_def is_running_or_pending_eq client_eq
      accessors_cached(1) [where d = d])

lemma live_update_groups:
  "live n (update_instances P (\<lambda>x. x\<lparr>inst_groups := gs\<rparr>) w) = [] \<longleftrightarrow> live n w = []"
proof -
  let ?g = "\<lambda>x. if P x then x\<lparr>inst_groups := gs\<rparr> else x"
  let ?L = "\<lambda>i. map_of (inst_tags i) ''Name'' = Some n
                \<and> (inst_state i = running \<or> inst_state i = pending)"
  have g: "?L (?g x) = ?L x" for x
    by simp
  have "concat (map (map ?g) (reservations w)) = map ?g (concat (reservations w))"
    by (simp add: map_concat)
  then have "live n (update_instances P (\<lambda>x. x\<lparr>inst_groups := gs\<rparr>) w)
             = filter ?L (map ?g (concat (reservations w)))"
    by (simp add: live_def)
  also have "\<dots> = map ?g (filter (\<lambda>x. ?L (?g x)) (concat (reservations w)))"
    by (simp only: filter_map o_def)
  also have "\<dots> = map ?g (live n w)"
    by (simp only: g live_def)
  finally show ?thesis by simp
qed

lemma update_groups_twice:
  "reservations (update_instances (has_id i) (\<lambda>x. x\<lparr>inst_groups := gs\<rparr>)
     (received c (received c'
        (update_instances (has_id i) (\<lambda>x. x\<lparr>inst_groups := gs\<rparr>) w))))
   = reservations (update_instances (has_id i) (\<lambda>x. x\<lparr>inst_groups := gs\<rparr>) w)"
  by (simp add: has_id_def)

text \<open>
  Idempotence holds for every handle: after a call of
  \<open>detach_security_group\<close> that returned, the same call again returns without an
  error and leaves every instance of the provider, and so every group set, as the
  first call left it.
\<close>

lemma detach_security_group_twice:
  assumes "detach_security_group sg_id (self, w) = (Inr (), self1, w1)"
  shows "\<exists>w2. detach_security_group sg_id (self1, w1) = (Inr (), self1, w2)
              \<and> reservations w2 = reservations w1"
proof -
  let ?q = "resolution_query (name self)"
  have live: "live (name self) w \<noteq> []"
    using assms by (auto simp: detach_security_group_not_live)
  have "\<exists>d sgs i w'. instance_info self1 = Some d \<and> d \<noteq> [] \<and> name self1 = name self
          \<and> security_groups (self1, received ?q w1) = (Inr sgs, self1, received ?q w1)
          \<and> getitem d ''InstanceId'' = Inr i \<and> known i w'
          \<and> w1 = update_instances (has_id i)
                    (\<lambda>x. x\<lparr>inst_groups := filter (\<lambda>sg. sg \<noteq> sg_id) sgs\<rparr>) w'
          \<and> live (name self) w' \<noteq> []"
  proof (cases "truthy (instance_info self)")
    case False
    from live obtain i rest where l: "live (name self) w = i # rest"
      by (cases "live (name self) w") auto
    let ?d = "describe_instance i"
    let ?self1 = "self\<lparr>instance_info := Some ?d\<rparr>"
    let ?gs = "filter (\<lambda>sg. sg \<noteq> sg_id) (inst_groups i)"
    let ?w' = "received (ModifyInstanceAttribute (Str (inst_id i)) ?gs)
                 (received ?q (received ?q w))"
    from assms detach_security_group_unloaded [OF False l, of sg_id]
    have s1: "self1 = ?self1"
      and w1: "w1 = update_instances (has_id (Str (inst_id i))) (\<lambda>x. x\<lparr>inst_groups := ?gs\<rparr>) ?w'"
      by simp_all
    have d: "instance_info ?self1 = Some ?d" "?d \<noteq> []"
      by simp_all
    have "security_groups (?self1, received ?q w1) = (Inr (inst_groups i), ?self1, received ?q w1)"
      unfolding accessors_cached(4) [OF d]
      by (simp add: getitem_def describe_instance_def group_ids_described)
    moreover have "getitem ?d ''InstanceId'' = Inr (Str (inst_id i))"
      by (simp add: getitem_def describe_instance_def)
    moreover have "known (Str (inst_id i)) ?w'"
      using live_known [OF l] by simp
    moreover have "live (name self) ?w' \<noteq> []"
      using l by simp
    ultimately show ?thesis
      unfolding s1 using w1 d by (intro exI [where x = ?d] exI [where x = "inst_groups i"]
          exI [where x = "Str (inst_id i)"] exI [where x = ?w']) simp
  next
    case True
    then obtain d where d: "instance_info self = Some d" "d \<noteq> []"
      by (auto simp: truthy_def split: option.splits)
    let ?w0 = "received ?q w"
    note sg = accessors_cached(4) [OF d]
    note id = accessors_cached(1) [OF d]
    from assms live obtain sgs where sgs: "security_groups (self, ?w0) = (Inr sgs, self, ?w0)"
      by (cases "fst (security_groups (self, ?w0))")
         (auto simp: detach_security_group_def is_running_or_pending_eq sg)
    from assms live sgs obtain i where i: "getitem d ''InstanceId'' = Inr i"
      by (cases "getitem d ''InstanceId''")
         (auto simp: detach_security_group_def is_running_or_pending_eq id)
    let ?gs = "filter (\<lambda>sg. sg \<noteq> sg_id) sgs"
    let ?w' = "received (ModifyInstanceAttribute i ?gs) ?w0"
    from assms detach_security_group_loaded [OF d live sgs i, of sg_id]
    have s1: "self1 = self"
      and k: "known i ?w0"
      and w1: "w1 = update_instances (has_id i) (\<lambda>x. x\<lparr>inst_groups := ?gs\<rparr>) ?w'"
      by (auto simp: modify_instance_attribute_eq split: if_splits)
    have "security_groups (self, received ?q w1) = (Inr sgs, self, received ?q w1)"
      using sgs unfolding sg by simp
    moreover have "known i ?w'"
      using k by simp
    moreover have "live (name self) ?w' \<noteq> []"
      using live by simp
    ultimately show ?thesis
      unfolding s1 using d i w1 by blast
  qed
  then obtain d sgs i w' where d: "instance_info self1 = Some d" "d \<noteq> []"
    and n: "name self1 = name self"
    and sgs: "security_groups (self1, received ?q w1) = (Inr sgs, self1, received ?q w1)"
    and i: "getitem d ''InstanceId'' = Inr i" and k: "known i w'"
    and w1: "w1 = update_instances (has_id i)
                    (\<lambda>x. x\<lparr>inst_groups := filter (\<lambda>sg. sg \<noteq> sg_id) sgs\<rparr>) w'"
    and l': "live (name self) w' \<noteq> []"
    by blast
  let ?gs = "filter (\<lambda>sg. sg \<noteq> sg_id) sgs"
  have l1: "live (name self1) w1 \<noteq> []"
    unfolding n w1 using l' by (simp add: live_update_groups)
  have k1: "known i (received (resolution_query (name self1)) w1)"
    unfolding w1 using k by (simp add: known_update_instances)
  have "detach_security_group sg_id (self1, w1)
        = (Inr (), self1,
           update_instances (has_id i) (\<lambda>x. x\<lparr>inst_groups := ?gs\<rparr>)
             (received (ModifyInstanceAttribute i ?gs) (received (resolution_query (name self1)) w1)))"
    using detach_security_group_loaded [OF d l1 _ i, of sgs sg_id] sgs k1
    by (simp add: n modify_instance_attribute_eq)
  moreover have "reservations (update_instances (has_id i) (\<lambda>x. x\<lparr>inst_groups := ?gs\<rparr>)
             (received (ModifyInstanceAttribute i ?gs) (received (resolution_query (name self1)) w1)))
        = reservations w1"
    unfolding w1 by (rule update_groups_twice)
  ultimately show ?thesis by blast
qed


text \<open>
  Without a loaded snapshot the groups are read from the provider: detaching a group that is not attached
  to the resolved instance changes no instance, provided the instances that share its
  identifier have the same groups (identifiers are unique at the provider).
\<close>

lemma detach_security_group_absent_unloaded:
  assumes "\<not> truthy (instance_info self)" and "live (name self) w = i # rest"
    and "sg_id \<notin> set (inst_groups i)"
    and "\<And>x. x \<in> set (concat (reservations w)) \<Longrightarrow> inst_id x = inst_id i
            \<Longrightarrow> inst_groups x = inst_groups i"
  shows "fst (detach_security_group sg_id (self, w)) = Inr ()"
    and "reservations (snd (snd (detach_security_group sg_id (self, w)))) = reservations w"
proof -
  have f: "filter (\<lambda>sg. sg \<noteq> sg_id) (inst_groups i) = inst_groups i"
    using assms(3) by (auto simp: filter_id_conv)
  show "fst (detach_security_group sg_id (self, w)) = Inr ()"
    by (simp add: detach_security_group_unloaded [OF assms(1,2)])
  have "map (map (\<lambda>x. if has_id (Str (inst_id i)) x then x\<lparr>inst_groups := inst_groups i\<rparr> else x))
          (reservations w) = reservations w"
  proof -
    have x: "(if has_id (Str (inst_id i)) x then x\<lparr>inst_groups := inst_groups i\<rparr> else x) = x"
      if "x \<in> set (concat (reservations w))" for x
      using assms(4) [OF that] by (auto simp: has_id_def)
    have "map (\<lambda>x. if has_id (Str (inst_id i)) x then x\<lparr>inst_groups := inst_groups i\<rparr> else x) r
               = r" if "r \<in> set (reservations w)" for r
    proof (rule map_idI)
      fix y assume "y \<in> set r"
      with that have "y \<in> set (concat (reservations w))" by auto
      then show "(if has_id (Str (inst_id i)) y then y\<lparr>inst_groups := inst_groups i\<rparr> else y) = y"
        by (rule x)
    qed
    then show ?thesis by (rule map_idI)
  qed
  then show "reservations (snd (snd (detach_security_group sg_id (self, w)))) = reservations w"
    by (simp add: detach_security_group_unloaded [OF assms(1,2)] f)
qed

text \<open>
  C7 says that detaching a group that is not attached is without effect, on every
  handle whose instance is running or pending. \<open>detach_security_group\<close> takes the
  groups from the cached snapshot, not from the provider, so this fails on a handle
  whose snapshot is out of date. On an instance with the groups \<open>sg-a\<close> and \<open>sg-b\<close>, a
  new handle detaches \<open>sg-a\<close>, which leaves \<open>sg-b\<close> attached; the same handle then
  detaches \<open>sg-z\<close>, which is not attached. The second call raises no error, but it
  sends the snapshot's groups, and \<open>sg-a\<close> is attached again.
\<close>

theorem detach_absent_group_reattaches:
  "fst (detach_security_group ''sg-a''
     (init ''node'' ''us-east-1'' False,
      example_ec2 [[example_instance ''i-1'' running ''node'' [''sg-a'', ''sg-b'']]])) = Inr ()
 \<and> map (map inst_groups) (reservations (snd (snd (detach_security_group ''sg-a''
     (init ''node'' ''us-east-1'' False,
      example_ec2 [[example_instance ''i-1'' running ''node'' [''sg-a'', ''sg-b'']]])))))
   = [[[''sg-b'']]]
 \<and> fst (detach_security_group ''sg-z'' (snd (detach_security_group ''sg-a''
     (init ''node'' ''us-east-1'' False,
      example_ec2 [[example_instance ''i-1'' running ''node'' [''sg-a'', ''sg-b'']]])))) = Inr ()
 \<and> map (map inst_groups) (reservations (snd (snd (detach_security_group ''sg-z''
     (snd (detach_security_group ''sg-a''
       (init ''node'' ''us-east-1'' False,
        example_ec2 [[example_instance ''i-1'' running ''node'' [''sg-a'', ''sg-b'']]])))))))
   = [[[''sg-a'', ''sg-b'']]]
 \<and> last (calls (snd (snd (detach_security_group ''sg-z''
     (snd (detach_security_group ''sg-a''
       (init ''node'' ''us-east-1'' False,
        example_ec2 [[example_instance ''i-1'' running ''node'' [''sg-a'', ''sg-b'']]])))))))
   = ModifyInstanceAttribute (Str ''i-1'') [''sg-a'', ''sg-b'']"
proof -
  let ?h = "init ''node'' ''us-east-1'' False"
  let ?i = "example_instance ''i-1'' running ''node'' [''sg-a'', ''sg-b'']"
  let ?w = "example_ec2 [[?i]]"
  let ?q = "resolution_query ''node''"
  let ?h1 = "?h\<lparr>instance_info := Some (describe_instance ?i)\<rparr>"
  let ?w1 = "update_instances (has_id (Str ''i-1'')) (\<lambda>x. x\<lparr>inst_groups := [''sg-b'']\<rparr>)
               (received (ModifyInstanceAttribute (Str ''i-1'') [''sg-b''])
                  (received ?q (received ?q ?w)))"
  let ?w2 = "update_instances (has_id (Str ''i-1'')) (\<lambda>x. x\<lparr>inst_groups := [''sg-a'', ''sg-b'']\<rparr>)
               (received (ModifyInstanceAttribute (Str ''i-1'') [''sg-a'', ''sg-b''])
                  (received ?q ?w1))"
  have l: "live ''node'' ?w = [?i]"
    by (simp add: live_def example_instance_def)
  have "detach_security_group ''sg-a'' (?h, ?w)
        = (Inr (), ?h1,
           update_instances (has_id (Str (inst_id ?i)))
             (\<lambda>x. x\<lparr>inst_groups := filter (\<lambda>sg. sg \<noteq> ''sg-a'') (inst_groups ?i)\<rparr>)
             (received (ModifyInstanceAttribute (Str (inst_id ?i))
                          (filter (\<lambda>sg. sg \<noteq> ''sg-a'') (inst_groups ?i)))
                (received (resolution_query (name ?h)) (received (resolution_query (name ?h)) ?w))))"
    by (rule detach_security_group_unloaded [where rest = "[]"]) (simp_all add: l)
  then have first: "detach_security_group ''sg-a'' (?h, ?w) = (Inr (), ?h1, ?w1)"
    by (simp add: example_instance_def)
  have r1: "reservations ?w1 = [[?i\<lparr>inst_groups := [''sg-b'']\<rparr>]]"
    by (simp add: has_id_def example_instance_def)
  have l1: "live (name ?h1) ?w1 \<noteq> []"
    by (simp add: live_def r1 example_instance_def)
  have d: "instance_info ?h1 = Some (describe_instance ?i)" "describe_instance ?i \<noteq> []"
    by simp_all
  have g: "(case getitem (describe_instance ?i) ''SecurityGroups'' of
              Inl e \<Rightarrow> Inl e
            | Inr (Dicts sgs) \<Rightarrow> group_ids sgs
            | Inr (Str cs) \<Rightarrow> (if cs = [] then Inr [] else Inl TypeError))
           = Inr [''sg-a'', ''sg-b'']"
    by (simp add: getitem_def describe_instance_def example_instance_def)
  have sg: "security_groups (?h1, received (resolution_query (name ?h1)) ?w1)
            = (Inr [''sg-a'', ''sg-b''], ?h1, received (resolution_query (name ?h1)) ?w1)"
    unfolding accessors_cached(4) [OF d] g ..
  have id: "getitem (describe_instance ?i) ''InstanceId'' = Inr (Str ''i-1'')"
    by (simp add: getitem_def describe_instance_def example_instance_def)
  have k: "known (Str ''i-1'') ?w1"
    by (simp add: known_def r1 has_id_def example_instance_def)
  have "detach_security_group ''sg-z'' (?h1, ?w1)
        = (fst (modify_instance_attribute (Str ''i-1'')
                  (filter (\<lambda>sg. sg \<noteq> ''sg-z'') [''sg-a'', ''sg-b''])
                  (received (resolution_query (name ?h1)) ?w1)),
           ?h1,
           snd (modify_instance_attribute (Str ''i-1'')
                  (filter (\<lambda>sg. sg \<noteq> ''sg-z'') [''sg-a'', ''sg-b''])
                  (received (resolution_query (name ?h1)) ?w1)))"
    using d l1 sg id by (rule detach_security_group_loaded)
  then have second: "detach_security_group ''sg-z'' (?h1, ?w1) = (Inr (), ?h1, ?w2)"
    using k by (simp add: modify_instance_attribute_eq)
  have r2: "map (map inst_groups) (reservations ?w2) = [[[''sg-a'', ''sg-b'']]]"
    by (simp add: has_id_def example_instance_def)
  have r1': "map (map inst_groups) (reservations ?w1) = [[[''sg-b'']]]"
    by (simp add: has_id_def example_instance_def)
  have c2: "last (calls ?w2) = ModifyInstanceAttribute (Str ''i-1'') [''sg-a'', ''sg-b'']"
    by simp
  show ?thesis
    unfolding first snd_conv fst_conv second
    using r1' r2 c2 by blast
qed

end
